theory Spec2Isabelle
  imports Complex_Main
begin

section \<open>Numbers, vectors and the tree mode\<close>

text \<open>
  In the first sections JavaScript numbers are exact reals: the definitions are the
  arithmetic the code writes down, without the rounding of the doubles and of the
  Float32 instance matrices. The results that compare an output with a formula or with
  a bound are stated of these definitions. The section on the rounding repeats the two
  interpolations with every operation rounded; the results that compare two outputs of
  the program with each other are stated of those. Vectors are \<open>THREE.Vector3\<close>.
\<close>

datatype Vector3 = Vector3 (vx: real) (vy: real) (vz: real)

text \<open>
  Modelled from the spec: the enum \<open>TreeMode\<close> of \<open>../types\<close> is not among the source
  files; the spec describes a two-valued signal, formed versus scattered.
\<close>

datatype TreeMode = FORMED | CHAOS

text \<open>
  \<open>THREE.MathUtils.lerp(x, y, t)\<close> is \<open>(1 - t) * x + t * y\<close>, here without rounding;
  \<open>lerpFl\<close> below rounds each of the four operations.
\<close>

definition lerp :: "real \<Rightarrow> real \<Rightarrow> real \<Rightarrow> real" where
  "lerp x y t = (1 - t) * x + t * y"

text \<open>\<open>Vector3.lerp(v, alpha)\<close> adds \<open>(v - this) * alpha\<close> to each component.\<close>

definition lerpV :: "Vector3 \<Rightarrow> Vector3 \<Rightarrow> real \<Rightarrow> Vector3" where
  "lerpV p v alpha =
     Vector3 (vx p + (vx v - vx p) * alpha)
             (vy p + (vy v - vy p) * alpha)
             (vz p + (vz v - vz p) * alpha)"

text \<open>\<open>Vector3.distanceTo\<close>.\<close>

definition distanceTo :: "Vector3 \<Rightarrow> Vector3 \<Rightarrow> real" where
  "distanceTo p v = sqrt ((vx p - vx v)\<^sup>2 + (vy p - vy v)\<^sup>2 + (vz p - vz v)\<^sup>2)"

section \<open>Foliage: the per-frame update\<close>

text \<open>
  The state the frame callback of \<open>Foliage\<close> touches: whether \<open>meshRef.current\<close> is
  set, \<open>progressRef.current\<close>, and the two shader uniforms.
\<close>

record FoliageState =
  meshRef :: bool
  progressRef :: real
  uTime :: real
  uProgress :: real

text \<open>\<open>useRef(0)\<close> and the uniforms \<open>{ value: 0 }\<close>.\<close>

definition foliageInit :: "bool \<Rightarrow> FoliageState" where
  "foliageInit mounted = \<lparr>meshRef = mounted, progressRef = 0, uTime = 0, uProgress = 0\<rparr>"

text \<open>The callback given to \<open>useFrame\<close>, with \<open>state.clock.elapsedTime\<close> and \<open>delta\<close>.\<close>

definition foliageFrame :: "TreeMode \<Rightarrow> real \<Rightarrow> real \<Rightarrow> FoliageState \<Rightarrow> FoliageState" where
  "foliageFrame mode elapsedTime delta st =
     (if meshRef st then
        (let target = (if mode = FORMED then 1 else 0);
             p = lerp (progressRef st) target (delta * 1.5)
         in st\<lparr>uTime := elapsedTime, progressRef := p, uProgress := p\<rparr>)
      else st)"

text \<open>A run of frames, each with its own mode, elapsed time and delta.\<close>

fun foliageRun :: "(TreeMode \<times> real \<times> real) list \<Rightarrow> FoliageState \<Rightarrow> FoliageState" where
  "foliageRun [] st = st"
| "foliageRun ((mode, t, delta) # fs) st = foliageRun fs (foliageFrame mode t delta st)"

section \<open>Foliage: the point generator\<close>

text \<open>
  \<open>Math.random()\<close> is modelled by a fixed sequence of draws \<open>rng\<close> and the number \<open>k\<close>
  of draws made so far: the next call returns \<open>rng k\<close>. The three \<open>Float32Array\<close>s are
  lists of reals, created filled with zeros and written by index.
\<close>

record FoliageArrays =
  chaosPositions :: "real list"
  targetPositions :: "real list"
  randoms :: "real list"

definition goldenRatio :: real where
  "goldenRatio = (1 + sqrt 5) / 2"

text \<open>The body of the loop over \<open>i\<close>: four draws, seven writes.\<close>

definition foliageBody :: "(nat \<Rightarrow> real) \<Rightarrow> nat \<Rightarrow> nat \<Rightarrow> FoliageArrays \<Rightarrow> FoliageArrays" where
  "foliageBody rng count i a =
     (let k = 4 * i;
          height = 12;
          maxRadius = 5;
          r = 25 * root 3 (rng k);
          theta = rng (k + 1) * 2 * pi;
          phi = arccos (2 * rng (k + 2) - 1);
          chaos = (chaosPositions a)
                    [i * 3 := r * sin phi * cos theta,
                     i * 3 + 1 := r * sin phi * sin theta + 5,
                     i * 3 + 2 := r * cos phi];
          yNorm = real i / real count;
          y = yNorm * height;
          currentRadius = maxRadius * (1 - yNorm);
          angle = 2 * pi * goldenRatio * real i;
          target = (targetPositions a)
                    [i * 3 := cos angle * currentRadius,
                     i * 3 + 1 := y,
                     i * 3 + 2 := sin angle * currentRadius];
          rnd = (randoms a)[i := rng (k + 3)]
      in \<lparr>chaosPositions = chaos, targetPositions = target, randoms = rnd\<rparr>)"

function foliageLoop :: "(nat \<Rightarrow> real) \<Rightarrow> nat \<Rightarrow> nat \<Rightarrow> FoliageArrays \<Rightarrow> FoliageArrays" where
  "foliageLoop rng count i a =
     (if i < count then foliageLoop rng count (i + 1) (foliageBody rng count i a) else a)"
  by pat_completeness auto
termination
  by (relation "measure (\<lambda>(rng, count, i, a). count - i)") auto

declare foliageLoop.simps [simp del]

definition foliageData :: "(nat \<Rightarrow> real) \<Rightarrow> nat \<Rightarrow> FoliageArrays" where
  "foliageData rng count =
     foliageLoop rng count 0
       \<lparr>chaosPositions = replicate (count * 3) 0,
        targetPositions = replicate (count * 3) 0,
        randoms = replicate count 0\<rparr>"

text \<open>The \<open>i\<close>-th point of a flat array with \<open>itemSize = 3\<close>.\<close>

definition pointAt :: "real list \<Rightarrow> nat \<Rightarrow> Vector3" where
  "pointAt xs i = Vector3 (xs ! (i * 3)) (xs ! (i * 3 + 1)) (xs ! (i * 3 + 2))"

section \<open>Ornaments: the instance generator\<close>

datatype OrnamentType = ball | gift | light

datatype Color = Color string

datatype Euler = Euler (ex: real) (ey: real) (ez: real)

record InstanceData =
  chaosPos :: Vector3
  targetPos :: Vector3
  type :: OrnamentType
  color :: Color
  scale :: real
  speed :: real
  rotationOffset :: Euler

definition palette :: "Color list" where
  "palette = [Color ''#4B9CD3'', Color ''#0ea5e9'', Color ''#f0f9ff'', Color ''#e2e8f0'']"

text \<open>
  The literals \<open>0.8\<close> and \<open>0.9\<close> of the source denote the doubles nearest to 4/5 and 9/10.
  A draw is a double as well, and a comparison of two doubles is exact.
\<close>

definition double_0_8 :: real where
  "double_0_8 = 3602879701896397 / 4503599627370496"

definition double_0_9 :: real where
  "double_0_9 = 8106479329266893 / 9007199254740992"

text \<open>The category of an ornament from its draw: two assignments in sequence.\<close>

definition ornamentType :: "real \<Rightarrow> OrnamentType" where
  "ornamentType rnd =
     (let t = ball;
          t = (if rnd > double_0_8 then gift else t);
          t = (if rnd > double_0_9 then light else t)
      in t)"

text \<open>
  One iteration of the loop, from draw number \<open>k\<close> on; returns the instance and the
  number of the next draw. A light draws neither a scale nor a palette colour. The
  palette index \<open>Math.floor(Math.random() * 4)\<close> is below 4 for a draw in \<open>[0, 1)\<close>.
\<close>

definition makeInstance :: "(nat \<Rightarrow> real) \<Rightarrow> nat \<Rightarrow> InstanceData \<times> nat" where
  "makeInstance rng k =
     (let height = 11;
          maxRadius = 4.5;
          rnd = rng k;
          ty = ornamentType rnd;
          yNorm = rng (k + 1) powr 2.5;
          y = yNorm * height + 0.5;
          rScale = 1 - yNorm;
          theta = y * 10 + rng (k + 2) * pi * 2;
          r = maxRadius * rScale + rng (k + 3) * 0.5;
          tPos = Vector3 (r * cos theta) y (r * sin theta);
          cR = 15 + rng (k + 4) * 15;
          cTheta = rng (k + 5) * pi * 2;
          cPhi = arccos (2 * rng (k + 6) - 1);
          cPos = Vector3 (cR * sin cPhi * cos cTheta)
                         (cR * sin cPhi * sin cTheta + 5)
                         (cR * cos cPhi);
          (sc, k1) = (if ty = light then (0.15, k + 7) else (0.2 + rng (k + 7) * 0.25, k + 8));
          (col, k2) = (if ty = light then (Color ''#e0f2fe'', k1)
                       else (palette ! nat \<lfloor>rng k1 * 4\<rfloor>, k1 + 1))
      in (\<lparr>chaosPos = cPos, targetPos = tPos, type = ty, color = col, scale = sc,
            speed = 0.5 + rng k2 * 1.5,
            rotationOffset = Euler (rng (k2 + 1) * pi) (rng (k2 + 2) * pi) 0\<rparr>,
          k2 + 3))"

record OrnamentsData =
  ballsData :: "InstanceData list"
  giftsData :: "InstanceData list"
  lightsData :: "InstanceData list"

text \<open>\<open>push\<close> onto the list of the instance's category.\<close>

definition pushInstance :: "InstanceData \<Rightarrow> OrnamentsData \<Rightarrow> OrnamentsData" where
  "pushInstance d acc =
     (if type d = ball then acc\<lparr>ballsData := ballsData acc @ [d]\<rparr>
      else if type d = gift then acc\<lparr>giftsData := giftsData acc @ [d]\<rparr>
      else acc\<lparr>lightsData := lightsData acc @ [d]\<rparr>)"

function ornamentsLoop ::
  "(nat \<Rightarrow> real) \<Rightarrow> nat \<Rightarrow> nat \<Rightarrow> nat \<Rightarrow> OrnamentsData \<Rightarrow> OrnamentsData" where
  "ornamentsLoop rng count i k acc =
     (if i < count then
        (case makeInstance rng k of
           (d, k') \<Rightarrow> ornamentsLoop rng count (i + 1) k' (pushInstance d acc))
      else acc)"
  by pat_completeness auto
termination
  by (relation "measure (\<lambda>(rng, count, i, k, acc). count - i)") auto

declare ornamentsLoop.simps [simp del]

definition ornamentsData :: "(nat \<Rightarrow> real) \<Rightarrow> nat \<Rightarrow> OrnamentsData" where
  "ornamentsData rng count =
     ornamentsLoop rng count 0 0 \<lparr>ballsData = [], giftsData = [], lightsData = []\<rparr>"

text \<open>
  The number of the first draw of iteration \<open>i\<close> of the loop (an iteration makes 10 draws
  for a light and 12 otherwise), and the instances the \<open>count\<close> iterations make, in order.
\<close>

fun firstDraw :: "(nat \<Rightarrow> real) \<Rightarrow> nat \<Rightarrow> nat" where
  "firstDraw rng 0 = 0"
| "firstDraw rng (Suc i) = snd (makeInstance rng (firstDraw rng i))"

definition generated :: "(nat \<Rightarrow> real) \<Rightarrow> nat \<Rightarrow> InstanceData list" where
  "generated rng count = map (\<lambda>i. fst (makeInstance rng (firstDraw rng i))) [0..<count]"

section \<open>Ornaments: the three.js operations the frame update calls\<close>

text \<open>
  The operations of three.js that \<open>updateMesh\<close> calls, in exact arithmetic. A rotation is
  kept as its matrix, the three columns being the images of the local axes.
\<close>

datatype Matrix3 = Matrix3 (xAxis: Vector3) (yAxis: Vector3) (zAxis: Vector3)

definition subVectors :: "Vector3 \<Rightarrow> Vector3 \<Rightarrow> Vector3" where
  "subVectors a b = Vector3 (vx a - vx b) (vy a - vy b) (vz a - vz b)"

definition crossVectors :: "Vector3 \<Rightarrow> Vector3 \<Rightarrow> Vector3" where
  "crossVectors a b =
     Vector3 (vy a * vz b - vz a * vy b)
             (vz a * vx b - vx a * vz b)
             (vx a * vy b - vy a * vx b)"

definition lengthSq :: "Vector3 \<Rightarrow> real" where
  "lengthSq v = vx v * vx v + vy v * vy v + vz v * vz v"

text \<open>\<open>Vector3.normalize\<close> is \<open>divideScalar(length() || 1)\<close>.\<close>

definition normalizeV :: "Vector3 \<Rightarrow> Vector3" where
  "normalizeV v =
     (let l = sqrt (lengthSq v); l = (if l = 0 then 1 else l)
      in Vector3 (vx v / l) (vy v / l) (vz v / l))"

definition setScalar :: "real \<Rightarrow> Vector3" where
  "setScalar s = Vector3 s s s"

definition multiplyScalar :: "Vector3 \<Rightarrow> real \<Rightarrow> Vector3" where
  "multiplyScalar v s = Vector3 (vx v * s) (vy v * s) (vz v * s)"

text \<open>\<open>Matrix4.lookAt(eye, target, up)\<close>: the rotation whose third column is \<open>eye - target\<close>.\<close>

definition lookAtMatrix :: "Vector3 \<Rightarrow> Vector3 \<Rightarrow> Vector3 \<Rightarrow> Matrix3" where
  "lookAtMatrix eye target up =
     (let z = subVectors eye target;
          z = (if lengthSq z = 0 then Vector3 (vx z) (vy z) 1 else z);
          z = normalizeV z;
          x = crossVectors up z;
          z = (if lengthSq x = 0 then
                 normalizeV (if \<bar>vz up\<bar> = 1 then Vector3 (vx z + 0.0001) (vy z) (vz z)
                            else Vector3 (vx z) (vy z) (vz z + 0.0001))
               else z);
          x = (if lengthSq x = 0 then crossVectors up z else x);
          x = normalizeV x;
          y = crossVectors z x
      in Matrix3 x y z)"

text \<open>
  \<open>Object3D.lookAt(x, y, z)\<close> for an object that is neither a camera nor a light and has
  no parent, with the default up vector: the matrix is built with the roles of eye and
  target exchanged, so that the local +Z axis points from the object to the point.
\<close>

definition lookAt :: "Vector3 \<Rightarrow> Vector3 \<Rightarrow> Matrix3" where
  "lookAt position target = lookAtMatrix target position (Vector3 0 1 0)"

definition clamp :: "real \<Rightarrow> real \<Rightarrow> real \<Rightarrow> real" where
  "clamp v lo hi = max lo (min hi v)"

text \<open>
  \<open>Math.atan2(y, x)\<close> on reals: without rounding and without the negative zero, for
  which \<open>Math.atan2\<close> returns \<open>-pi\<close> or a negative zero where this function returns
  \<open>pi\<close> or 0.
\<close>

definition atan2 :: "real \<Rightarrow> real \<Rightarrow> real" where
  "atan2 y x =
     (if x > 0 then arctan (y / x)
      else if x < 0 then (if y \<ge> 0 then arctan (y / x) + pi else arctan (y / x) - pi)
      else if y > 0 then pi / 2
      else if y < 0 then - pi / 2
      else 0)"

text \<open>
  \<open>Euler.setFromRotationMatrix\<close> for the default order XYZ: the angles \<open>dummy.rotation\<close>
  holds after \<open>decompose\<close> has set the quaternion.
\<close>

definition setFromRotationMatrix :: "Matrix3 \<Rightarrow> Euler" where
  "setFromRotationMatrix m =
     (let m11 = vx (xAxis m); m12 = vx (yAxis m); m13 = vx (zAxis m);
          m22 = vy (yAxis m); m23 = vy (zAxis m);
          m32 = vz (yAxis m); m33 = vz (zAxis m);
          y = arcsin (clamp m13 (- 1) 1)
      in if \<bar>m13\<bar> < 0.9999999 then Euler (atan2 (- m23) m33) y (atan2 (- m12) m11)
         else Euler (atan2 m32 m22) y 0)"

text \<open>
  \<open>Matrix4.makeRotationFromEuler\<close> for the order XYZ: the rotation the matrix gets from
  \<open>updateMatrix\<close> once \<open>dummy.rotation\<close> has been assigned.
\<close>

definition makeRotationFromEuler :: "Euler \<Rightarrow> Matrix3" where
  "makeRotationFromEuler e =
     (let a = cos (ex e); b = sin (ex e);
          c = cos (ey e); d = sin (ey e);
          e' = cos (ez e); f = sin (ez e);
          ae = a * e'; af = a * f; be = b * e'; bf = b * f
      in Matrix3 (Vector3 (c * e') (af + be * d) (bf - ae * d))
                 (Vector3 (- c * f) (ae - bf * d) (be + af * d))
                 (Vector3 d (- b * c) (a * c)))"

section \<open>Ornaments: the per-frame update\<close>

text \<open>
  An instance matrix is kept as the position, rotation and scale it is composed of:
  \<open>getMatrixAt\<close> followed by \<open>decompose\<close> reads the three, \<open>updateMatrix\<close> followed by
  \<open>setMatrixAt\<close> writes them. The scratch object \<open>dummy\<close> is overwritten from the
  instance matrix at the start of every iteration, so it carries nothing from one
  instance to the next and is local to the step.
\<close>

record Transform =
  position :: Vector3
  rotation :: Matrix3
  objScale :: Vector3

text \<open>
  The body of \<open>data.forEach\<close> for one instance \<open>d\<close> and its matrix \<open>m\<close>, without
  rounding: what is read from the matrix is what was written to it, where the code reads
  Float32 values and recovers the rotation through a quaternion. \<open>updateInstanceFl\<close>
  below follows the position through the rounding.
\<close>

definition updateInstance :: "bool \<Rightarrow> real \<Rightarrow> real \<Rightarrow> InstanceData \<Rightarrow> Transform \<Rightarrow> Transform" where
  "updateInstance isFormed time delta d m =
     (let dest = (if isFormed then targetPos d else chaosPos d);
          step = delta * speed d;
          p = lerpV (position m) dest step;
          p = (if isFormed \<and> distanceTo p (targetPos d) < 0.5
               then Vector3 (vx p) (vy p + sin (time * 2 + vx (chaosPos d)) * 0.002) (vz p)
               else p);
          r = (if type d = gift then
                 (let e = setFromRotationMatrix (rotation m)
                  in makeRotationFromEuler (Euler (ex e + delta * 0.5) (ey e + delta * 0.2) (ez e)))
               else lookAt p (Vector3 0 (vy p) 0));
          s = setScalar (scale d);
          s = (if type d = light
               then multiplyScalar s (1 + sin (time * 5 + vy (chaosPos d)) * 0.3)
               else s)
      in \<lparr>position = p, rotation = r, objScale = s\<rparr>)"

record InstancedMesh =
  instanceMatrix :: "Transform list"
  instanceColor :: "Color list"
  needsUpdate :: bool

text \<open>
  \<open>data.forEach((d, i) => ...)\<close>, from index \<open>i\<close> on. The mesh is created with
  \<open>data.length\<close> instances; a write past the end of the typed array is ignored.
\<close>

fun forEachInstance ::
  "bool \<Rightarrow> real \<Rightarrow> real \<Rightarrow> InstanceData list \<Rightarrow> nat \<Rightarrow> Transform list \<Rightarrow> Transform list" where
  "forEachInstance isFormed time delta [] i ms = ms"
| "forEachInstance isFormed time delta (d # ds) i ms =
     forEachInstance isFormed time delta ds (Suc i)
       (if i < length ms then ms[i := updateInstance isFormed time delta d (ms ! i)] else ms)"

text \<open>\<open>updateMesh(ref, data)\<close>; \<open>None\<close> is \<open>ref.current === null\<close>.\<close>

definition updateMesh ::
  "bool \<Rightarrow> real \<Rightarrow> real \<Rightarrow> InstancedMesh option \<Rightarrow> InstanceData list \<Rightarrow> InstancedMesh option" where
  "updateMesh isFormed time delta ref data =
     (case ref of
        None \<Rightarrow> None
      | Some mesh \<Rightarrow>
          Some (mesh\<lparr>instanceMatrix := forEachInstance isFormed time delta data 0 (instanceMatrix mesh),
                     needsUpdate := (if data \<noteq> [] then True else needsUpdate mesh)\<rparr>))"

record OrnamentsState =
  ballsRef :: "InstancedMesh option"
  giftsRef :: "InstancedMesh option"
  lightsRef :: "InstancedMesh option"

text \<open>The callback given to \<open>useFrame\<close>.\<close>

definition ornamentsFrame ::
  "TreeMode \<Rightarrow> OrnamentsData \<Rightarrow> real \<Rightarrow> real \<Rightarrow> OrnamentsState \<Rightarrow> OrnamentsState" where
  "ornamentsFrame mode data time delta st =
     (let isFormed = (mode = FORMED)
      in \<lparr>ballsRef = updateMesh isFormed time delta (ballsRef st) (ballsData data),
          giftsRef = updateMesh isFormed time delta (giftsRef st) (giftsData data),
          lightsRef = updateMesh isFormed time delta (lightsRef st) (lightsData data)\<rparr>)"

section \<open>The interpolations with their rounding\<close>

text \<open>
  The definitions above compute in exact reals. JavaScript computes in doubles: every
  arithmetic operation returns the double nearest to its exact result, and a number
  written into the instance matrices is rounded once more, to Float32. The definitions
  of this section follow the same source lines with every operation of the position and
  of the progress wrapped in its rounding. The roundings and \<open>Math.sin\<close> are parameters:
  \<open>double\<close> takes the exact result of an operation to the double returned, \<open>float32\<close> takes
  a number to the Float32 stored.
\<close>

record Rounding =
  double :: "real \<Rightarrow> real"
  float32 :: "real \<Rightarrow> real"
  mathSin :: "real \<Rightarrow> real"

text \<open>
  A rounding \<open>r\<close> with relative error \<open>u\<close> and absolute error \<open>eta\<close> on the numbers of
  magnitude up to \<open>big\<close>. Rounding to the nearest double has \<open>u = 2^-53\<close> and
  \<open>eta = 2^-1075\<close> up to the largest double, rounding to the nearest Float32 has
  \<open>u = 2^-24\<close> and \<open>eta = 2^-150\<close> up to the largest Float32.
\<close>

definition rounds :: "(real \<Rightarrow> real) \<Rightarrow> real \<Rightarrow> real \<Rightarrow> real \<Rightarrow> bool" where
  "rounds r u eta big = (\<forall>x. \<bar>x\<bar> \<le> big \<longrightarrow> \<bar>r x - x\<bar> \<le> u * \<bar>x\<bar> + eta)"

text \<open>\<open>THREE.MathUtils.lerp(x, y, t)\<close>: \<open>(1 - t) * x + t * y\<close>, four operations.\<close>

definition lerpFl :: "Rounding \<Rightarrow> real \<Rightarrow> real \<Rightarrow> real \<Rightarrow> real" where
  "lerpFl fl x y t = double fl (double fl (double fl (1 - t) * x) + double fl (t * y))"

text \<open>The frame callback of \<open>Foliage\<close>; \<open>delta * 1.5\<close> is an operation too.\<close>

definition foliageFrameFl ::
  "Rounding \<Rightarrow> TreeMode \<Rightarrow> real \<Rightarrow> real \<Rightarrow> FoliageState \<Rightarrow> FoliageState" where
  "foliageFrameFl fl mode elapsedTime delta st =
     (if meshRef st then
        (let target = (if mode = FORMED then 1 else 0);
             p = lerpFl fl (progressRef st) target (double fl (delta * 1.5))
         in st\<lparr>uTime := elapsedTime, progressRef := p, uProgress := p\<rparr>)
      else st)"

text \<open>\<open>Vector3.lerp(v, alpha)\<close>: \<open>this.x += (v.x - this.x) * alpha\<close>, three operations.\<close>

definition lerp1Fl :: "Rounding \<Rightarrow> real \<Rightarrow> real \<Rightarrow> real \<Rightarrow> real" where
  "lerp1Fl fl x v alpha = double fl (x + double fl (double fl (v - x) * alpha))"

definition lerpVFl :: "Rounding \<Rightarrow> Vector3 \<Rightarrow> Vector3 \<Rightarrow> real \<Rightarrow> Vector3" where
  "lerpVFl fl p v alpha =
     Vector3 (lerp1Fl fl (vx p) (vx v) alpha)
             (lerp1Fl fl (vy p) (vy v) alpha)
             (lerp1Fl fl (vz p) (vz v) alpha)"

text \<open>
  \<open>Vector3.distanceTo\<close>: the square root of \<open>dx * dx + dy * dy + dz * dz\<close>, as the code
  computes it for its test against 0.5.
\<close>

definition distanceToFl :: "Rounding \<Rightarrow> Vector3 \<Rightarrow> Vector3 \<Rightarrow> real" where
  "distanceToFl fl p v =
     (let dx = double fl (vx p - vx v);
          dy = double fl (vy p - vy v);
          dz = double fl (vz p - vz v)
      in double fl (sqrt (double fl (double fl (double fl (dx * dx) + double fl (dy * dy))
                                    + double fl (dz * dz)))))"

text \<open>
  The body of \<open>data.forEach\<close> with the rounding of the position: the position read from
  the matrix is interpolated and bobbed in doubles and stored as Float32. The rotation
  and the scale are kept as the exact functions of \<open>updateInstance\<close>; the results below
  use of them only that, for a ball or a light, they are computed from the position, the
  instance and the time.
\<close>

definition updateInstanceFl ::
  "Rounding \<Rightarrow> bool \<Rightarrow> real \<Rightarrow> real \<Rightarrow> InstanceData \<Rightarrow> Transform \<Rightarrow> Transform" where
  "updateInstanceFl fl isFormed time delta d m =
     (let dest = (if isFormed then targetPos d else chaosPos d);
          step = double fl (delta * speed d);
          p = lerpVFl fl (position m) dest step;
          p = (if isFormed \<and> distanceToFl fl p (targetPos d) < 0.5
               then Vector3 (vx p)
                      (double fl (vy p + double fl
                         (mathSin fl (double fl (double fl (time * 2) + vx (chaosPos d)))
                            * double fl 0.002)))
                      (vz p)
               else p);
          r = (if type d = gift then
                 (let e = setFromRotationMatrix (rotation m)
                  in makeRotationFromEuler (Euler (ex e + delta * 0.5) (ey e + delta * 0.2) (ez e)))
               else lookAt p (Vector3 0 (vy p) 0));
          s = setScalar (scale d);
          s = (if type d = light
               then multiplyScalar s (1 + sin (time * 5 + vy (chaosPos d)) * 0.3)
               else s)
      in \<lparr>position = Vector3 (float32 fl (vx p)) (float32 fl (vy p)) (float32 fl (vz p)),
          rotation = r, objScale = s\<rparr>)"

fun forEachInstanceFl ::
  "Rounding \<Rightarrow> bool \<Rightarrow> real \<Rightarrow> real \<Rightarrow> InstanceData list \<Rightarrow> nat \<Rightarrow> Transform list
     \<Rightarrow> Transform list" where
  "forEachInstanceFl fl isFormed time delta [] i ms = ms"
| "forEachInstanceFl fl isFormed time delta (d # ds) i ms =
     forEachInstanceFl fl isFormed time delta ds (Suc i)
       (if i < length ms then ms[i := updateInstanceFl fl isFormed time delta d (ms ! i)] else ms)"







text \<open>A vector with every coordinate of magnitude at most \<open>B\<close>.\<close>

definition withinBox :: "real \<Rightarrow> Vector3 \<Rightarrow> bool" where
  "withinBox B v = (\<bar>vx v\<bar> \<le> B \<and> \<bar>vy v\<bar> \<le> B \<and> \<bar>vz v\<bar> \<le> B)"

text \<open>
  The rounding error of one interpolation: of the progress, four double operations on
  numbers of magnitude up to \<open>B\<close>; of a coordinate of a position, three double operations
  and the Float32 store.
\<close>

definition progressTolerance :: "real \<Rightarrow> real \<Rightarrow> real \<Rightarrow> real" where
  "progressTolerance u eta B = (6 * u + 4 * eta) * B"

definition positionTolerance :: "real \<Rightarrow> real \<Rightarrow> real \<Rightarrow> real \<Rightarrow> real \<Rightarrow> real" where
  "positionTolerance u eta u32 eta32 B = u32 * B + 11 * u * (B + eta) + 4 * eta + eta32"

text \<open>
  A rounding to a grid of step \<open>2^-n\<close>, and the two roundings taken on such grids: a
  stand-in with which the conditions on the roundings can be met.
\<close>

definition gridRound :: "nat \<Rightarrow> real \<Rightarrow> real" where
  "gridRound n x = of_int (round (x * 2 ^ n)) / 2 ^ n"

definition gridArith :: Rounding where
  "gridArith = \<lparr>double = gridRound 53, float32 = gridRound 24, mathSin = sin\<rparr>"

section \<open>Ornaments: runs of frames and the Float32 range\<close>










section \<open>Concrete inputs\<close>

text \<open>
  An instance of a given category, with values in the ranges of the generator: chaos
  position \<open>(0, 5, -20)\<close>, at distance 20 from \<open>(0, 5, 0)\<close>, target position
  \<open>(4, 2, 0)\<close>, scale 0.3 and speed 1.
\<close>

definition exampleInstance :: "OrnamentType \<Rightarrow> InstanceData" where
  "exampleInstance ty =
     \<lparr>chaosPos = Vector3 0 5 (- 20), targetPos = Vector3 4 2 0, type = ty,
      color = Color ''#4B9CD3'', scale = 0.3, speed = 1, rotationOffset = Euler 0 0 0\<rparr>"

text \<open>The matrix of an instance at a position, with the identity rotation and scale 1.\<close>

definition transformAt :: "Vector3 \<Rightarrow> Transform" where
  "transformAt p =
     \<lparr>position = p,
      rotation = Matrix3 (Vector3 1 0 0) (Vector3 0 1 0) (Vector3 0 0 1),
      objScale = Vector3 1 1 1\<rparr>"





text \<open>
  The unit vector that points horizontally from the axis \<open>x = z = 0\<close> to a position, at
  the height of the position.
\<close>

definition radialOutward :: "Vector3 \<Rightarrow> Vector3" where
  "radialOutward p = normalizeV (Vector3 (vx p) 0 (vz p))"

text \<open>
  Draws whose first draws of ten iterations are 0.05, 0.15, ..., 0.95: every draw of
  iteration \<open>i\<close> is \<open>i / 10 + 1 / 20\<close>.
\<close>

definition spreadDraws :: "nat \<Rightarrow> real" where
  "spreadDraws k = real (k div 12) / 10 + 1 / 20"

section \<open>Foliage progress\<close>

lemma foliageFrame_progress:
  "progressRef (foliageFrame mode t delta st) =
     (if meshRef st then lerp (progressRef st) (if mode = FORMED then 1 else 0) (delta * 1.5)
      else progressRef st)"
  by (simp add: foliageFrame_def Let_def)

lemma lerp_unit_interval:
  assumes "0 \<le> p" "p \<le> 1" "0 \<le> k" "k \<le> 1" "tgt = 0 \<or> tgt = 1"
  shows "0 \<le> lerp p tgt k \<and> lerp p tgt k \<le> 1"
proof -
  have a: "0 \<le> (1 - k) * p" using assms by simp
  have b: "(1 - k) * p \<le> (1 - k) * 1" using assms by (intro mult_left_mono) auto
  from assms(5) show ?thesis
  proof
    assume "tgt = 0" with a b assms show ?thesis by (simp add: lerp_def)
  next
    assume "tgt = 1" with a b assms show ?thesis by (simp add: lerp_def)
  qed
qed

lemma foliageRun_unit_interval:
  assumes "\<forall>f \<in> set fs. 0 \<le> snd (snd f) \<and> snd (snd f) * 1.5 \<le> 1"
    and "0 \<le> progressRef st" "progressRef st \<le> 1"
  shows "0 \<le> progressRef (foliageRun fs st) \<and> progressRef (foliageRun fs st) \<le> 1"
  using assms
proof (induction fs arbitrary: st)
  case Nil
  then show ?case by simp
next
  case (Cons f fs)
  obtain mode t delta where f: "f = (mode, t, delta)" by (cases f) auto
  have d: "0 \<le> delta * 1.5" "delta * 1.5 \<le> 1" using Cons.prems(1) f by auto
  have "0 \<le> progressRef (foliageFrame mode t delta st) \<and>
        progressRef (foliageFrame mode t delta st) \<le> 1"
    using lerp_unit_interval[OF Cons.prems(2,3) d, of "if mode = FORMED then 1 else 0"]
      Cons.prems(2,3)
    by (simp add: foliageFrame_progress)
  then show ?case using Cons.IH[of "foliageFrame mode t delta st"] Cons.prems(1) f by simp
qed

text \<open>
  Claim C4, as stated: the progress scalar starts at 0 and stays in \<open>[0, 1]\<close> after every
  update, for arbitrary non-negative deltas. It fails on the code: the interpolation
  factor \<open>delta * 1.5\<close> is not clamped, and one formed frame with \<open>delta = 2\<close> takes the
  progress from 0 to 3.
\<close>

theorem progress_leaves_unit_interval:
  "\<not> (0 \<le> progressRef (foliageRun [(FORMED, 0, 2)] (foliageInit True)) \<and>
      progressRef (foliageRun [(FORMED, 0, 2)] (foliageInit True)) \<le> 1)"
  by (simp add: foliageFrame_def foliageInit_def lerp_def)

text \<open>
  Claim C4, amended: the progress scalar starts at 0 and, for every sequence of frames
  whose deltas satisfy \<open>0 \<le> delta\<close> and \<open>delta * 1.5 \<le> 1\<close>, with an arbitrary mode
  in each frame, it is in \<open>[0, 1]\<close> after every update (after the first \<open>n\<close> frames, for
  every \<open>n\<close>).
\<close>

theorem progress_stays_in_unit_interval:
  assumes "\<forall>f \<in> set fs. 0 \<le> snd (snd f) \<and> snd (snd f) * 1.5 \<le> 1"
  shows "progressRef (foliageInit mounted) = 0 \<and>
         (\<forall>n. 0 \<le> progressRef (foliageRun (take n fs) (foliageInit mounted)) \<and>
              progressRef (foliageRun (take n fs) (foliageInit mounted)) \<le> 1)"
proof -
  have "\<forall>f \<in> set (take n fs). 0 \<le> snd (snd f) \<and> snd (snd f) * 1.5 \<le> 1" for n
    using assms by (meson in_set_takeD)
  then show ?thesis
    using foliageRun_unit_interval[of "take n fs" "foliageInit mounted" for n]
    by (simp add: foliageInit_def)
qed

theorem progress_stays_in_unit_interval_witness:
  "(0 \<le> (1 / 2 :: real) \<and> (1 / 2 :: real) * 1.5 \<le> 1) \<and>
   (0 \<le> (1 / 4 :: real) \<and> (1 / 4 :: real) * 1.5 \<le> 1) \<and>
   progressRef (foliageInit True) = 0 \<and>
   (\<forall>n. 0 \<le> progressRef (foliageRun (take n [(FORMED, 0, 1 / 2), (CHAOS, 1 / 2, 1 / 4)])
                             (foliageInit True)) \<and>
        progressRef (foliageRun (take n [(FORMED, 0, 1 / 2), (CHAOS, 1 / 2, 1 / 4)])
                       (foliageInit True)) \<le> 1)"
proof -
  have h: "\<forall>f \<in> set [(FORMED, 0 :: real, 1 / 2 :: real), (CHAOS, 1 / 2, 1 / 4)].
             0 \<le> snd (snd f) \<and> snd (snd f) * 1.5 \<le> 1"
    by simp
  show ?thesis
    using progress_stays_in_unit_interval[OF h, of True] by simp
qed

section \<open>The ornament frame update\<close>

lemma updateInstance_position:
  "position (updateInstance isFormed time delta d m) =
    (let p = lerpV (position m) (if isFormed then targetPos d else chaosPos d) (delta * speed d)
     in if isFormed \<and> distanceTo p (targetPos d) < 0.5
        then Vector3 (vx p) (vy p + sin (time * 2 + vx (chaosPos d)) * 0.002) (vz p)
        else p)"
  by (simp add: updateInstance_def Let_def)

lemma updateInstance_rotation:
  "rotation (updateInstance isFormed time delta d m) =
     (if type d = gift then
        makeRotationFromEuler
          (Euler (ex (setFromRotationMatrix (rotation m)) + delta * 0.5)
                 (ey (setFromRotationMatrix (rotation m)) + delta * 0.2)
                 (ez (setFromRotationMatrix (rotation m))))
      else lookAt (position (updateInstance isFormed time delta d m))
             (Vector3 0 (vy (position (updateInstance isFormed time delta d m))) 0))"
  by (simp add: updateInstance_def Let_def)


lemma forEachInstance_length [simp]:
  "length (forEachInstance isFormed time delta ds i ms) = length ms"
  by (induction ds arbitrary: i ms) simp_all


text \<open>
  Claim C9: when the handle of a mesh is absent, \<open>updateMesh\<close> returns at once and
  changes nothing: the handle stays absent, the other two meshes come out of the frame
  as they do when that handle is present, and a frame in which all three handles are
  absent leaves the state of the component as it was.
\<close>

theorem absent_mesh_is_skipped:
  "updateMesh isFormed time delta None data = None \<and>
   ballsRef (ornamentsFrame mode dat time delta (st\<lparr>ballsRef := None\<rparr>)) = None \<and>
   giftsRef (ornamentsFrame mode dat time delta (st\<lparr>ballsRef := None\<rparr>))
     = giftsRef (ornamentsFrame mode dat time delta st) \<and>
   lightsRef (ornamentsFrame mode dat time delta (st\<lparr>ballsRef := None\<rparr>))
     = lightsRef (ornamentsFrame mode dat time delta st) \<and>
   ornamentsFrame mode dat time delta \<lparr>ballsRef = None, giftsRef = None, lightsRef = None\<rparr>
     = \<lparr>ballsRef = None, giftsRef = None, lightsRef = None\<rparr>"
  by (simp add: updateMesh_def ornamentsFrame_def Let_def)

text \<open>
  Claim C10: in scattered mode the update of an instance never adds the bobbing offset:
  the position written is the interpolation of the old position towards the chaos
  position and nothing else, wherever the instance is, also within 0.5 of its formed
  target.
\<close>

theorem scattered_mode_never_bobs:
  "position (updateInstance (CHAOS = FORMED) time delta d m) =
     lerpV (position m) (chaosPos d) (delta * speed d)"
  by (simp add: updateInstance_position)

section \<open>Interpolation towards the target\<close>

lemma distanceTo_lerpV:
  "distanceTo (lerpV p dest k) dest = \<bar>1 - k\<bar> * distanceTo p dest"
proof -
  have "(vx p + (vx dest - vx p) * k - vx dest)\<^sup>2 + (vy p + (vy dest - vy p) * k - vy dest)\<^sup>2
        + (vz p + (vz dest - vz p) * k - vz dest)\<^sup>2
      = (1 - k)\<^sup>2 * ((vx p - vx dest)\<^sup>2 + (vy p - vy dest)\<^sup>2 + (vz p - vz dest)\<^sup>2)"
    by (simp add: power2_eq_square algebra_simps)
  then show ?thesis
    by (simp add: distanceTo_def lerpV_def real_sqrt_mult)
qed


lemma distanceTo_along_y: "distanceTo (Vector3 a b c) (Vector3 a b' c) = \<bar>b - b'\<bar>"
  by (simp add: distanceTo_def)

lemma norm3_triangle:
  "sqrt ((a + d)\<^sup>2 + (b + e)\<^sup>2 + (c + f)\<^sup>2)
     \<le> sqrt (a\<^sup>2 + b\<^sup>2 + c\<^sup>2) + sqrt (d\<^sup>2 + e\<^sup>2 + f\<^sup>2)"
proof -
  let ?A = "sqrt ((a + d)\<^sup>2 + (b + e)\<^sup>2)"
  let ?A1 = "sqrt (a\<^sup>2 + b\<^sup>2)"
  let ?A2 = "sqrt (d\<^sup>2 + e\<^sup>2)"
  have A: "?A \<le> ?A1 + ?A2" by (rule real_sqrt_sum_squares_triangle_ineq)
  have A0: "0 \<le> ?A" by simp
  have "?A\<^sup>2 \<le> (?A1 + ?A2)\<^sup>2" using A A0 by (rule power_mono)
  then have "sqrt (?A\<^sup>2 + (c + f)\<^sup>2) \<le> sqrt ((?A1 + ?A2)\<^sup>2 + (c + f)\<^sup>2)"
    by (intro real_sqrt_le_mono) simp
  also have "\<dots> \<le> sqrt (?A1\<^sup>2 + c\<^sup>2) + sqrt (?A2\<^sup>2 + f\<^sup>2)"
    by (rule real_sqrt_sum_squares_triangle_ineq)
  finally show ?thesis by simp
qed

lemma distanceTo_triangle: "distanceTo p r \<le> distanceTo p q + distanceTo q r"
  using norm3_triangle[of "vx p - vx q" "vx q - vx r" "vy p - vy q" "vy q - vy r"
      "vz p - vz q" "vz q - vz r"]
  by (simp add: distanceTo_def)

text \<open>
  The error of a rounding on a number of known magnitude, and the errors of the two
  interpolations as the code computes them.
\<close>

lemma rounds_err:
  assumes "rounds r u eta big" and "0 \<le> u" and "\<bar>x\<bar> \<le> X" and "X \<le> big"
  shows "\<bar>r x - x\<bar> \<le> u * X + eta"
proof -
  have "\<bar>r x - x\<bar> \<le> u * \<bar>x\<bar> + eta" using assms by (simp add: rounds_def)
  moreover have "u * \<bar>x\<bar> \<le> u * X" using assms by (intro mult_left_mono)
  ultimately show ?thesis by linarith
qed

lemma abs_sum4:
  fixes p q r s :: real
  assumes "\<bar>p\<bar> \<le> P" "\<bar>q\<bar> \<le> Q" "\<bar>r\<bar> \<le> R" "\<bar>s\<bar> \<le> S"
  shows "\<bar>p + q + r + s\<bar> \<le> P + Q + R + S"
  using assms by linarith

lemma convex_abs_bound:
  fixes x v :: real
  assumes "\<bar>x\<bar> \<le> B" "\<bar>v\<bar> \<le> B" "0 \<le> a" "a \<le> 1"
  shows "\<bar>x + (v - x) * a\<bar> \<le> B"
proof -
  have e: "x + (v - x) * a = (1 - a) * x + a * v" by (simp add: algebra_simps)
  have "\<bar>(1 - a) * x\<bar> \<le> (1 - a) * B" using assms by (simp add: abs_mult mult_left_mono)
  moreover have "\<bar>a * v\<bar> \<le> a * B" using assms by (simp add: abs_mult mult_left_mono)
  moreover have "(1 - a) * B + a * B = B" by (simp add: algebra_simps)
  ultimately show ?thesis unfolding e by linarith
qed

lemma lerp1Fl_error:
  assumes rd: "rounds (double fl) u eta big" and rf: "rounds (float32 fl) u32 eta32 big32"
    and u: "0 \<le> u" "u \<le> 1 / 8" and eta: "0 \<le> eta"
    and u32: "0 \<le> u32" "u32 \<le> 1 / 8" and eta32: "0 \<le> eta32"
    and x: "\<bar>x\<bar> \<le> B" and v: "\<bar>v\<bar> \<le> B"
    and a: "0 \<le> a" "a \<le> 1"
    and big: "5 * (B + eta) \<le> big" "5 * (B + eta) \<le> big32"
  shows "\<bar>(v - float32 fl (lerp1Fl fl x v a)) - (1 - a) * (v - x)\<bar>
           \<le> u32 * B + 11 * u * (B + eta) + 4 * eta + eta32"
proof -
  define W where "W = B + eta"
  define U where "U = u * W"
  define V where "V = u32 * B"
  have B0: "0 \<le> B" using x by linarith
  have W0: "0 \<le> W" "B \<le> W" "eta \<le> W" "B + eta \<le> W" using B0 eta by (simp_all add: W_def)
  have U8: "U \<le> W / 8" using u W0 mult_right_mono[of u "1 / 8" W] by (simp add: U_def)
  have U0: "0 \<le> U" using u W0 by (simp add: U_def)
  have rg: "2 * W \<le> big" "3 * W \<le> big" "4 * W \<le> big" "5 * W \<le> big32"
    using big W0 by (simp_all add: W_def)
  define d1 where "d1 = double fl (v - x)"
  define m1 where "m1 = double fl (d1 * a)"
  define s where "s = double fl (x + m1)"
  define e1 where "e1 = d1 - (v - x)"
  define e2 where "e2 = m1 - d1 * a"
  define e3 where "e3 = s - (x + m1)"
  define e4 where "e4 = float32 fl s - s"
  have vx: "\<bar>v - x\<bar> \<le> 2 * W" using x v W0 by linarith
  have vxB: "\<bar>v - x\<bar> \<le> 2 * B" using x v by linarith
  have E1: "\<bar>e1\<bar> \<le> 2 * U + eta"
    unfolding e1_def d1_def using rounds_err[OF rd u(1) vx rg(1)]
    by (simp add: U_def mult.left_commute)
  have d1: "\<bar>d1\<bar> \<le> 3 * W" using E1 vxB U8 W0 B0 eta unfolding e1_def by linarith
  have "\<bar>d1 * a\<bar> = \<bar>d1\<bar> * a" using a by (simp add: abs_mult)
  also have "\<dots> \<le> \<bar>d1\<bar> * 1" using a by (intro mult_left_mono) simp_all
  finally have d1a: "\<bar>d1 * a\<bar> \<le> 3 * W" using d1 by simp
  have E2: "\<bar>e2\<bar> \<le> 3 * U + eta"
    unfolding e2_def m1_def using rounds_err[OF rd u(1) d1a rg(2)]
    by (simp add: U_def mult.left_commute)
  define e1a where "e1a = e1 * a"
  have "\<bar>e1a\<bar> = \<bar>e1\<bar> * a" using a by (simp add: e1a_def abs_mult)
  also have "\<dots> \<le> \<bar>e1\<bar> * 1" using a by (intro mult_left_mono) simp_all
  finally have E1a: "\<bar>e1a\<bar> \<le> 2 * U + eta" using E1 by simp
  define y where "y = x + (v - x) * a"
  have y: "\<bar>y\<bar> \<le> B" unfolding y_def using x v a by (rule convex_abs_bound)
  have xm: "x + m1 = y + e1a + e2"
    by (simp add: y_def e1a_def e1_def e2_def algebra_simps)
  have xm1: "\<bar>x + m1\<bar> \<le> 4 * W" unfolding xm using y E1a E2 U8 W0 B0 eta by linarith
  have E3: "\<bar>e3\<bar> \<le> 4 * U + eta"
    unfolding e3_def s_def using rounds_err[OF rd u(1) xm1 rg(3)]
    by (simp add: U_def mult.left_commute)
  have ss: "s = y + e1a + e2 + e3"
    using xm by (simp add: e3_def)
  have sB: "\<bar>s\<bar> \<le> B + (9 * U + 3 * eta)" unfolding ss using y E1a E2 E3 by linarith
  have sB2: "B + (9 * U + 3 * eta) \<le> big32" using U8 rg(4) W0 B0 eta by linarith
  have E4: "\<bar>e4\<bar> \<le> u32 * (B + (9 * U + 3 * eta)) + eta32"
    unfolding e4_def using rf u32(1) sB sB2 by (rule rounds_err)
  define X where "X = u32 * (9 * U + 3 * eta)"
  have "u32 * (9 * U + 3 * eta) \<le> (1 / 8) * (9 * U + 3 * eta)"
    using u32 U0 eta by (intro mult_right_mono) simp_all
  then have X8: "X \<le> 9 * U / 8 + 3 * eta / 8" by (simp add: X_def add_divide_distrib)
  have "u32 * (B + (9 * U + 3 * eta)) = V + X"
    by (simp add: V_def X_def algebra_simps)
  then have "\<bar>e4\<bar> \<le> V + X + eta32" using E4 by simp
  then have E4': "\<bar>e4\<bar> \<le> V + (9 * U / 8 + 3 * eta / 8) + eta32"
    using X8 by linarith
  have r: "(v - float32 fl (lerp1Fl fl x v a)) - (1 - a) * (v - x) = - (e1a + e2 + e3 + e4)"
    by (simp add: lerp1Fl_def e1a_def e1_def e2_def e3_def e4_def s_def m1_def d1_def algebra_simps)
  have "\<bar>e1a + e2 + e3 + e4\<bar>
          \<le> (2 * U + eta) + (3 * U + eta) + (4 * U + eta) + (V + (9 * U / 8 + 3 * eta / 8) + eta32)"
    using E1a E2 E3 E4' by (rule abs_sum4)
  then have "\<bar>e1a + e2 + e3 + e4\<bar> \<le> V + 11 * U + 4 * eta + eta32"
    using U0 eta by linarith
  then show ?thesis unfolding r U_def V_def W_def by (simp add: mult.assoc)
qed

lemma lerpFl_error:
  assumes rd: "rounds (double fl) u eta big"
    and u: "0 \<le> u" "u \<le> 1 / 8" and eta: "0 \<le> eta" "eta \<le> 1 / 8"
    and p: "\<bar>p\<bar> \<le> B" and B: "1 \<le> B" and tgt: "tgt = 0 \<or> tgt = 1"
    and k: "0 \<le> k" "k \<le> 1"
    and big: "2 * B \<le> big"
  shows "\<bar>(tgt - lerpFl fl p tgt k) - (1 - k) * (tgt - p)\<bar> \<le> (6 * u + 4 * eta) * B"
proof -
  define U where "U = u * B"
  define H where "H = eta * B"
  have U0: "0 \<le> U" "u \<le> U" "U \<le> B / 8"
    using u B mult_left_mono[of 1 B u] mult_right_mono[of u "1 / 8" B] by (simp_all add: U_def)
  have H0: "0 \<le> H" "eta \<le> H" "H \<le> B / 8"
    using eta B mult_left_mono[of 1 B eta] mult_right_mono[of eta "1 / 8" B] by (simp_all add: H_def)
  define a1 where "a1 = double fl (1 - k)"
  define b where "b = double fl (a1 * p)"
  define c where "c = double fl (k * tgt)"
  define s where "s = double fl (b + c)"
  define e1 where "e1 = a1 - (1 - k)"
  define e2 where "e2 = b - a1 * p"
  define e3 where "e3 = c - k * tgt"
  define e4 where "e4 = s - (b + c)"
  define e1p where "e1p = e1 * p"
  have rg: "1 \<le> big" "5 / 4 * B \<le> big" using big B by simp_all
  have k1: "\<bar>1 - k\<bar> \<le> 1" using k by simp
  have E1: "\<bar>e1\<bar> \<le> u + eta"
    unfolding e1_def a1_def using rounds_err[OF rd u(1) k1 rg(1)] by simp
  have a1: "\<bar>a1\<bar> \<le> 5 / 4" using E1 k1 u eta unfolding e1_def by linarith
  have "\<bar>a1 * p\<bar> = \<bar>a1\<bar> * \<bar>p\<bar>" by (simp add: abs_mult)
  also have "\<dots> \<le> 5 / 4 * B" using a1 p by (intro mult_mono) simp_all
  finally have a1p: "\<bar>a1 * p\<bar> \<le> 5 / 4 * B" .
  have E2: "\<bar>e2\<bar> \<le> 5 / 4 * U + eta"
    unfolding e2_def b_def using rounds_err[OF rd u(1) a1p rg(2)] by (simp add: U_def)
  have kt: "\<bar>k * tgt\<bar> \<le> 1" using k tgt by auto
  have E3: "\<bar>e3\<bar> \<le> u + eta"
    unfolding e3_def c_def using rounds_err[OF rd u(1) kt rg(1)] by simp
  have "\<bar>e1p\<bar> = \<bar>e1\<bar> * \<bar>p\<bar>" by (simp add: e1p_def abs_mult)
  also have "\<dots> \<le> (u + eta) * B" using E1 p u eta by (intro mult_mono) simp_all
  finally have E1p: "\<bar>e1p\<bar> \<le> U + H" by (simp add: U_def H_def algebra_simps)
  define y where "y = p + (tgt - p) * k"
  have t1: "\<bar>tgt\<bar> \<le> B" using tgt B by auto
  have y: "\<bar>y\<bar> \<le> B" unfolding y_def using p t1 k by (rule convex_abs_bound)
  have bc: "b + c = y + e1p + e2 + e3"
    by (simp add: y_def e1p_def e1_def e2_def e3_def algebra_simps)
  have bc2: "\<bar>b + c\<bar> \<le> 2 * B" unfolding bc using y E1p E2 E3 U0 H0 by linarith
  have E4: "\<bar>e4\<bar> \<le> 2 * U + eta"
    unfolding e4_def s_def using rounds_err[OF rd u(1) bc2 big]
    by (simp add: U_def mult.left_commute)
  have r: "(tgt - lerpFl fl p tgt k) - (1 - k) * (tgt - p) = - (e1p + e2 + e3 + e4)"
    by (simp add: lerpFl_def e1p_def e1_def e2_def e3_def e4_def s_def c_def b_def a1_def
        algebra_simps)
  have "\<bar>e1p + e2 + e3 + e4\<bar> \<le> (U + H) + (5 / 4 * U + eta) + (u + eta) + (2 * U + eta)"
    using E1p E2 E3 E4 by (rule abs_sum4)
  then have "\<bar>e1p + e2 + e3 + e4\<bar> \<le> 6 * U + 4 * H"
    using U0 H0 by linarith
  then show ?thesis unfolding r U_def H_def by (simp add: algebra_simps)
qed

lemma norm3_of_components:
  fixes a b c :: real
  assumes "\<bar>a\<bar> \<le> e" "\<bar>b\<bar> \<le> e" "\<bar>c\<bar> \<le> e"
  shows "sqrt (a\<^sup>2 + b\<^sup>2 + c\<^sup>2) \<le> 2 * e"
proof -
  have e0: "0 \<le> e" using assms(1) by linarith
  have "a\<^sup>2 \<le> e\<^sup>2" "b\<^sup>2 \<le> e\<^sup>2" "c\<^sup>2 \<le> e\<^sup>2"
    using assms e0 by (simp_all add: abs_le_square_iff[symmetric])
  then have "a\<^sup>2 + b\<^sup>2 + c\<^sup>2 \<le> 4 * e\<^sup>2" using zero_le_power2[of e] by linarith
  also have "\<dots> = (2 * e)\<^sup>2" by (simp add: power2_eq_square)
  finally show ?thesis using e0 by (intro real_le_lsqrt) simp_all
qed

lemma updateInstanceFl_position:
  "position (updateInstanceFl fl isFormed time delta d m) =
     (let dest = (if isFormed then targetPos d else chaosPos d);
          p = lerpVFl fl (position m) dest (double fl (delta * speed d));
          p = (if isFormed \<and> distanceToFl fl p (targetPos d) < 0.5
               then Vector3 (vx p)
                      (double fl (vy p + double fl
                         (mathSin fl (double fl (double fl (time * 2) + vx (chaosPos d)))
                            * double fl 0.002)))
                      (vz p)
               else p)
      in Vector3 (float32 fl (vx p)) (float32 fl (vy p)) (float32 fl (vz p)))"
  by (simp add: updateInstanceFl_def Let_def)

lemma residual_bound:
  fixes r r' :: real
  assumes "\<bar>r' - (1 - k) * r\<bar> \<le> e" "0 \<le> k" "k \<le> 1"
  shows "\<bar>r'\<bar> \<le> (1 - k) * \<bar>r\<bar> + e"
proof -
  have "\<bar>(1 - k) * r\<bar> = (1 - k) * \<bar>r\<bar>" using assms by (simp add: abs_mult)
  then show ?thesis using assms(1) by linarith
qed

lemma contraction_strict:
  fixes r r' :: real
  assumes "r' \<le> (1 - k) * r + e" "e < k * r"
  shows "r' < r"
proof -
  have "(1 - k) * r = r - k * r" by (simp add: algebra_simps)
  then show ?thesis using assms by linarith
qed

lemma gridRound_rounds: "rounds (gridRound n) 0 (1 / 2 ^ Suc n) big"
proof -
  have "\<bar>gridRound n x - x\<bar> \<le> 1 / 2 ^ Suc n" for x
  proof -
    define z where "z = of_int (round (x * 2 ^ n)) - x * 2 ^ n"
    have g: "gridRound n x - x = z / 2 ^ n"
      by (simp add: gridRound_def z_def field_simps)
    have "\<bar>z\<bar> \<le> 1 / 2" unfolding z_def by (rule of_int_round_abs_le)
    then have "\<bar>z\<bar> / 2 ^ n \<le> (1 / 2) / 2 ^ n" by (rule divide_right_mono) simp
    then have "\<bar>gridRound n x - x\<bar> \<le> (1 / 2) / 2 ^ n" unfolding g by simp
    then show ?thesis by simp
  qed
  then show ?thesis by (simp add: rounds_def)
qed

lemma gridRound_fix:
  assumes "m \<le> n"
  shows "gridRound n (of_int z / 2 ^ m) = of_int z / 2 ^ m"
proof -
  have "(2::real) ^ n = 2 ^ m * 2 ^ (n - m)" using assms by (simp flip: power_add)
  then have "of_int z / 2 ^ m * 2 ^ n = (of_int (z * 2 ^ (n - m)) :: real)" by simp
  then have "round (of_int z / 2 ^ m * 2 ^ n :: real) = z * 2 ^ (n - m)"
    by (simp only: round_of_int)
  then have "gridRound n (of_int z / 2 ^ m) = of_int (z * 2 ^ (n - m)) / 2 ^ n"
    by (simp only: gridRound_def)
  also have "\<dots> = of_int z / 2 ^ m" using \<open>(2::real) ^ n = 2 ^ m * 2 ^ (n - m)\<close> by simp
  finally show ?thesis .
qed


lemma gridRound_quarters:
  "gridRound 53 (1 / 2) = 1 / 2" "gridRound 53 (3 / 4) = 3 / 4"
  using gridRound_fix[of 1 53 1] gridRound_fix[of 2 53 3] by simp_all

lemma gridRound_near:
  assumes "\<bar>x * 2 ^ n - of_int z\<bar> < 1 / 2"
  shows "gridRound n x = of_int z / 2 ^ n"
  using round_unique'[OF assms] by (simp add: gridRound_def)

text \<open>
  Claim C3, amended: the interpolations are computed in doubles and a position is
  stored as Float32, so one tick contracts the residual up to a rounding error and not
  exactly. For roundings with relative errors \<open>u\<close>, \<open>u32\<close> and absolute errors \<open>eta\<close>,
  \<open>eta32\<close>, values of magnitude at most \<open>B\<close>, a fixed mode and a tick whose computed
  factor (\<open>delta * 1.5\<close> for the progress, \<open>delta * speed\<close> for a position) lies in
  \<open>[0, 1]\<close>: (a) when the foliage is mounted, the residual of the progress after the tick
  is \<open>1 - factor\<close> times the residual before, up to \<open>progressTolerance\<close>: the residual does
  not grow and the progress does not pass its target by more than the tolerance, and the
  residual strictly decreases whenever \<open>factor\<close> times the residual exceeds the
  tolerance; (b) when the bob is not added (the mode is scattered, or the distance the
  code computes from the interpolated position to the formed target is not below 0.5),
  each coordinate of the vector from the position to the destination is \<open>1 - factor\<close>
  times what it was, up to \<open>positionTolerance\<close>: the distance is at most \<open>1 - factor\<close>
  times the distance before plus twice the tolerance, and strictly decreases whenever
  \<open>factor\<close> times the distance exceeds twice the tolerance.
\<close>

theorem interpolation_contracts_up_to_rounding:
  assumes rd: "rounds (double fl) u eta big" and rf: "rounds (float32 fl) u32 eta32 big32"
    and u: "0 \<le> u" "u \<le> 1 / 8" and eta: "0 \<le> eta" "eta \<le> 1 / 8"
    and u32: "0 \<le> u32" "u32 \<le> 1 / 8" and eta32: "0 \<le> eta32"
    and B: "1 \<le> B" and big: "5 * (B + eta) \<le> big" "5 * (B + eta) \<le> big32"
  shows "(meshRef st \<and> \<bar>progressRef st\<bar> \<le> B \<and>
          0 \<le> double fl (delta * 1.5) \<and> double fl (delta * 1.5) \<le> 1 \<longrightarrow>
           \<bar>((if mode = FORMED then 1 else 0) - progressRef (foliageFrameFl fl mode t delta st))
              - (1 - double fl (delta * 1.5)) * ((if mode = FORMED then 1 else 0) - progressRef st)\<bar>
             \<le> progressTolerance u eta B \<and>
           \<bar>(if mode = FORMED then 1 else 0) - progressRef (foliageFrameFl fl mode t delta st)\<bar>
             \<le> (1 - double fl (delta * 1.5)) * \<bar>(if mode = FORMED then 1 else 0) - progressRef st\<bar>
                + progressTolerance u eta B \<and>
           (progressTolerance u eta B
              < double fl (delta * 1.5) * \<bar>(if mode = FORMED then 1 else 0) - progressRef st\<bar> \<longrightarrow>
            \<bar>(if mode = FORMED then 1 else 0) - progressRef (foliageFrameFl fl mode t delta st)\<bar>
              < \<bar>(if mode = FORMED then 1 else 0) - progressRef st\<bar>)) \<and>
         (withinBox B (position m) \<and>
          withinBox B (if mode = FORMED then targetPos d else chaosPos d) \<and>
          0 \<le> double fl (delta * speed d) \<and> double fl (delta * speed d) \<le> 1 \<and>
          \<not> (mode = FORMED \<and>
             distanceToFl fl (lerpVFl fl (position m) (targetPos d) (double fl (delta * speed d)))
               (targetPos d) < 0.5) \<longrightarrow>
           \<bar>(vx (if mode = FORMED then targetPos d else chaosPos d)
                - vx (position (updateInstanceFl fl (mode = FORMED) t delta d m)))
              - (1 - double fl (delta * speed d))
                * (vx (if mode = FORMED then targetPos d else chaosPos d) - vx (position m))\<bar>
             \<le> positionTolerance u eta u32 eta32 B \<and>
           \<bar>(vy (if mode = FORMED then targetPos d else chaosPos d)
                - vy (position (updateInstanceFl fl (mode = FORMED) t delta d m)))
              - (1 - double fl (delta * speed d))
                * (vy (if mode = FORMED then targetPos d else chaosPos d) - vy (position m))\<bar>
             \<le> positionTolerance u eta u32 eta32 B \<and>
           \<bar>(vz (if mode = FORMED then targetPos d else chaosPos d)
                - vz (position (updateInstanceFl fl (mode = FORMED) t delta d m)))
              - (1 - double fl (delta * speed d))
                * (vz (if mode = FORMED then targetPos d else chaosPos d) - vz (position m))\<bar>
             \<le> positionTolerance u eta u32 eta32 B \<and>
           distanceTo (position (updateInstanceFl fl (mode = FORMED) t delta d m))
                      (if mode = FORMED then targetPos d else chaosPos d)
             \<le> (1 - double fl (delta * speed d))
                  * distanceTo (position m) (if mode = FORMED then targetPos d else chaosPos d)
                + 2 * positionTolerance u eta u32 eta32 B \<and>
           (2 * positionTolerance u eta u32 eta32 B
              < double fl (delta * speed d)
                * distanceTo (position m) (if mode = FORMED then targetPos d else chaosPos d) \<longrightarrow>
            distanceTo (position (updateInstanceFl fl (mode = FORMED) t delta d m))
                       (if mode = FORMED then targetPos d else chaosPos d)
              < distanceTo (position m) (if mode = FORMED then targetPos d else chaosPos d)))"
proof (rule conjI; rule impI)
  let ?tgt = "if mode = FORMED then 1 else 0 :: real"
  let ?k = "double fl (delta * 1.5)"
  let ?p = "progressRef st"
  let ?p' = "progressRef (foliageFrameFl fl mode t delta st)"
  assume a: "meshRef st \<and> \<bar>?p\<bar> \<le> B \<and> 0 \<le> ?k \<and> ?k \<le> 1"
  have p': "?p' = lerpFl fl ?p ?tgt ?k"
    using a by (simp add: foliageFrameFl_def Let_def)
  have rg: "2 * B \<le> big" using big(1)[unfolded distrib_left] eta(1) B by linarith
  have t: "?tgt = 0 \<or> ?tgt = 1" by simp
  have m: "\<bar>(?tgt - ?p') - (1 - ?k) * (?tgt - ?p)\<bar> \<le> progressTolerance u eta B"
    unfolding p' progressTolerance_def
    using rd u eta _ B t _ _ rg by (rule lerpFl_error) (use a in simp_all)
  have n: "\<bar>?tgt - ?p'\<bar> \<le> (1 - ?k) * \<bar>?tgt - ?p\<bar> + progressTolerance u eta B"
    using m by (rule residual_bound) (use a in simp_all)
  have s: "\<bar>?tgt - ?p'\<bar> < \<bar>?tgt - ?p\<bar>"
    if "progressTolerance u eta B < ?k * \<bar>?tgt - ?p\<bar>"
    using n that by (rule contraction_strict)
  show "\<bar>(?tgt - ?p') - (1 - ?k) * (?tgt - ?p)\<bar> \<le> progressTolerance u eta B \<and>
        \<bar>?tgt - ?p'\<bar> \<le> (1 - ?k) * \<bar>?tgt - ?p\<bar> + progressTolerance u eta B \<and>
        (progressTolerance u eta B < ?k * \<bar>?tgt - ?p\<bar> \<longrightarrow> \<bar>?tgt - ?p'\<bar> < \<bar>?tgt - ?p\<bar>)"
    using m n s by blast
next
  let ?dest = "if mode = FORMED then targetPos d else chaosPos d"
  let ?k = "double fl (delta * speed d)"
  let ?q = "position (updateInstanceFl fl (mode = FORMED) t delta d m)"
  let ?e = "positionTolerance u eta u32 eta32 B"
  assume a: "withinBox B (position m) \<and> withinBox B ?dest \<and> 0 \<le> ?k \<and> ?k \<le> 1 \<and>
             \<not> (mode = FORMED \<and>
                distanceToFl fl (lerpVFl fl (position m) (targetPos d) ?k) (targetPos d) < 0.5)"
  have q: "?q = Vector3 (float32 fl (lerp1Fl fl (vx (position m)) (vx ?dest) ?k))
                        (float32 fl (lerp1Fl fl (vy (position m)) (vy ?dest) ?k))
                        (float32 fl (lerp1Fl fl (vz (position m)) (vz ?dest) ?k))"
    using a by (auto simp: updateInstanceFl_position Let_def lerpVFl_def)
  have k: "0 \<le> ?k" "?k \<le> 1" using a by simp_all
  have b: "\<bar>vx (position m)\<bar> \<le> B" "\<bar>vy (position m)\<bar> \<le> B" "\<bar>vz (position m)\<bar> \<le> B"
    "\<bar>vx ?dest\<bar> \<le> B" "\<bar>vy ?dest\<bar> \<le> B" "\<bar>vz ?dest\<bar> \<le> B"
    using a unfolding withinBox_def by blast+
  have cx: "\<bar>(vx ?dest - vx ?q) - (1 - ?k) * (vx ?dest - vx (position m))\<bar> \<le> ?e"
    unfolding q positionTolerance_def Vector3.sel
    using rd rf u eta(1) u32 eta32 b(1) b(4) k big by (rule lerp1Fl_error)
  have cy: "\<bar>(vy ?dest - vy ?q) - (1 - ?k) * (vy ?dest - vy (position m))\<bar> \<le> ?e"
    unfolding q positionTolerance_def Vector3.sel
    using rd rf u eta(1) u32 eta32 b(2) b(5) k big by (rule lerp1Fl_error)
  have cz: "\<bar>(vz ?dest - vz ?q) - (1 - ?k) * (vz ?dest - vz (position m))\<bar> \<le> ?e"
    unfolding q positionTolerance_def Vector3.sel
    using rd rf u eta(1) u32 eta32 b(3) b(6) k big by (rule lerp1Fl_error)
  let ?l = "lerpV (position m) ?dest ?k"
  have "distanceTo ?q ?l \<le> 2 * ?e"
  proof -
    have "\<bar>vx ?q - vx ?l\<bar> = \<bar>(vx ?dest - vx ?q) - (1 - ?k) * (vx ?dest - vx (position m))\<bar>"
      "\<bar>vy ?q - vy ?l\<bar> = \<bar>(vy ?dest - vy ?q) - (1 - ?k) * (vy ?dest - vy (position m))\<bar>"
      "\<bar>vz ?q - vz ?l\<bar> = \<bar>(vz ?dest - vz ?q) - (1 - ?k) * (vz ?dest - vz (position m))\<bar>"
      unfolding lerpV_def Vector3.sel abs_minus_commute[of "vx ?q"] abs_minus_commute[of "vy ?q"]
        abs_minus_commute[of "vz ?q"]
      by (rule arg_cong[where f = abs], simp add: algebra_simps)+
    then have "\<bar>vx ?q - vx ?l\<bar> \<le> ?e" "\<bar>vy ?q - vy ?l\<bar> \<le> ?e" "\<bar>vz ?q - vz ?l\<bar> \<le> ?e"
      using cx cy cz by simp_all
    then show ?thesis unfolding distanceTo_def by (rule norm3_of_components)
  qed
  moreover have "distanceTo ?l ?dest = \<bar>1 - ?k\<bar> * distanceTo (position m) ?dest"
    by (rule distanceTo_lerpV)
  moreover have "\<bar>1 - ?k\<bar> = 1 - ?k" using k by simp
  moreover have "distanceTo ?q ?dest \<le> distanceTo ?q ?l + distanceTo ?l ?dest"
    by (rule distanceTo_triangle)
  ultimately have dd: "distanceTo ?q ?dest \<le> (1 - ?k) * distanceTo (position m) ?dest + 2 * ?e"
    by simp
  have s: "distanceTo ?q ?dest < distanceTo (position m) ?dest"
    if "2 * ?e < ?k * distanceTo (position m) ?dest"
    using dd that by (rule contraction_strict)
  show "\<bar>(vx ?dest - vx ?q) - (1 - ?k) * (vx ?dest - vx (position m))\<bar> \<le> ?e \<and>
        \<bar>(vy ?dest - vy ?q) - (1 - ?k) * (vy ?dest - vy (position m))\<bar> \<le> ?e \<and>
        \<bar>(vz ?dest - vz ?q) - (1 - ?k) * (vz ?dest - vz (position m))\<bar> \<le> ?e \<and>
        distanceTo ?q ?dest \<le> (1 - ?k) * distanceTo (position m) ?dest + 2 * ?e \<and>
        (2 * ?e < ?k * distanceTo (position m) ?dest \<longrightarrow>
           distanceTo ?q ?dest < distanceTo (position m) ?dest)"
    using cx cy cz dd s by blast
qed

theorem interpolation_contracts_up_to_rounding_witness:
  "rounds (double gridArith) 0 (1 / 2 ^ 54) 200 \<and>
   rounds (float32 gridArith) 0 (1 / 2 ^ 25) 200 \<and>
   double gridArith (1 / 2 * 1.5) = 3 / 4 \<and>
   double gridArith (1 / 2 * speed (exampleInstance ball)) = 1 / 2 \<and>
   withinBox 30 (position (transformAt (Vector3 4 2 0))) \<and>
   withinBox 30 (chaosPos (exampleInstance ball)) \<and>
   progressTolerance 0 (1 / 2 ^ 54) 30 < 3 / 4 * \<bar>0 - 1 / 2\<bar> \<and>
   \<bar>0 - progressRef (foliageFrameFl gridArith CHAOS 0 (1 / 2)
          \<lparr>meshRef = True, progressRef = 1 / 2, uTime = 0, uProgress = 1 / 2\<rparr>)\<bar>
     < \<bar>0 - 1 / 2\<bar> \<and>
   distanceTo (position (updateInstanceFl gridArith False 0 (1 / 2) (exampleInstance ball)
                           (transformAt (Vector3 4 2 0))))
              (chaosPos (exampleInstance ball))
     \<le> (1 - 1 / 2) * distanceTo (position (transformAt (Vector3 4 2 0)))
                      (chaosPos (exampleInstance ball))
        + 2 * positionTolerance 0 (1 / 2 ^ 54) 0 (1 / 2 ^ 25) 30"
proof -
  let ?st = "\<lparr>meshRef = True, progressRef = 1 / 2, uTime = 0, uProgress = 1 / 2 :: real\<rparr>"
  have r1: "rounds (double gridArith) 0 (1 / 2 ^ 54) 200"
    using gridRound_rounds[of 53 200] by (simp add: gridArith_def)
  have r2: "rounds (float32 gridArith) 0 (1 / 2 ^ 25) 200"
    using gridRound_rounds[of 24 200] by (simp add: gridArith_def)
  have k: "double gridArith (1 / 2 * 1.5) = 3 / 4"
    using gridRound_quarters by (simp add: gridArith_def)
  have s: "double gridArith (1 / 2 * speed (exampleInstance ball)) = 1 / 2"
    using gridRound_quarters by (simp add: gridArith_def exampleInstance_def)
  have b1: "withinBox 30 (position (transformAt (Vector3 4 2 0)))"
    by (simp add: withinBox_def transformAt_def)
  have b2: "withinBox 30 (chaosPos (exampleInstance ball))"
    by (simp add: withinBox_def exampleInstance_def)
  have e: "progressTolerance 0 (1 / 2 ^ 54) 30 < 3 / 4 * \<bar>0 - 1 / 2 :: real\<bar>"
    by (simp add: progressTolerance_def)
  note t = interpolation_contracts_up_to_rounding[where fl = gridArith and u = 0
      and eta = "1 / 2 ^ 54" and ?u32.0 = 0 and ?eta32.0 = "1 / 2 ^ 25" and big = 200
      and ?big32.0 = 200 and B = 30 and st = ?st and mode = CHAOS and delta = "1 / 2"
      and t = 0 and d = "exampleInstance ball" and m = "transformAt (Vector3 4 2 0)", OF r1 r2]
  note t' = t[unfolded k s]
  have c: "\<bar>0 - progressRef (foliageFrameFl gridArith CHAOS 0 (1 / 2) ?st)\<bar> < \<bar>0 - 1 / 2 :: real\<bar>"
    using t' e by simp
  have d: "distanceTo (position (updateInstanceFl gridArith False 0 (1 / 2) (exampleInstance ball)
                           (transformAt (Vector3 4 2 0))))
              (chaosPos (exampleInstance ball))
     \<le> (1 - 1 / 2) * distanceTo (position (transformAt (Vector3 4 2 0)))
                      (chaosPos (exampleInstance ball))
        + 2 * positionTolerance 0 (1 / 2 ^ 54) 0 (1 / 2 ^ 25) 30"
    using t' b1 b2 by simp
  show ?thesis using r1 r2 k s b1 b2 e c d by blast
qed

text \<open>
  Claim C3, as stated: every tick with a positive delta strictly decreases the residual
  and never overshoots. It fails on the code: from progress 0 in formed mode, one frame
  with \<open>delta = 2\<close> gives progress 3, beyond the target 1, with residual 2 instead of 1.
  All the numbers of this computation are small integers, which the doubles hold exactly.
\<close>

theorem large_delta_overshoots:
  "\<not> (\<bar>1 - progressRef (foliageFrame FORMED 0 2 (foliageInit True))\<bar>
        < \<bar>1 - progressRef (foliageInit True)\<bar>) \<and>
   1 < progressRef (foliageFrame FORMED 0 2 (foliageInit True))"
  by (simp add: foliageFrame_def foliageInit_def lerp_def)

text \<open>
  The strict decrease is lost to the rounding as well, with a factor in \<open>(0, 1)\<close>: between
  1/2 and 1 the doubles are the multiples of \<open>2^-53\<close>, which is the grid of \<open>gridArith\<close>,
  and from the largest double below 1, in formed mode and with \<open>delta = 1 / 64\<close>, the
  progress computed is that double again. And in formed mode the bob added after the
  interpolation can take an instance that is close to its target further away from it.
\<close>

lemma progress_stalls_next_to_target:
  "double gridArith (1 / 64 * 1.5) = 3 / 128 \<and>
   progressRef (foliageFrameFl gridArith FORMED 0 (1 / 64)
      \<lparr>meshRef = True, progressRef = 1 - 1 / 2 ^ 53, uTime = 0, uProgress = 1 - 1 / 2 ^ 53\<rparr>)
     = 1 - 1 / 2 ^ 53"
proof -
  have k: "gridRound 53 (1 / 64 * 1.5) = 3 / 128"
    using gridRound_fix[of 7 53 3] by simp
  have a: "gridRound 53 (1 - 3 / 128) = 125 / 128"
    using gridRound_fix[of 7 53 125] by simp
  have b: "gridRound 53 (125 / 128 * (1 - 1 / 2 ^ 53)) = (125 * 2 ^ 46 - 1) / 2 ^ 53"
    using gridRound_near[of "125 / 128 * (1 - 1 / 2 ^ 53)" 53 "125 * 2 ^ 46 - 1"] by simp
  have c: "gridRound 53 (3 / 128 * 1) = 3 / 128"
    using gridRound_fix[of 7 53 3] by simp
  have d: "gridRound 53 ((125 * 2 ^ 46 - 1) / 2 ^ 53 + 3 / 128) = 1 - 1 / 2 ^ 53"
    using gridRound_fix[of 53 53 "2 ^ 53 - 1"] by simp
  show ?thesis
    by (simp only: foliageFrameFl_def lerpFl_def gridArith_def Let_def Rounding.select_convs
        FoliageState.select_convs FoliageState.update_convs if_True simp_thms k a b c d)
qed

lemma bob_moves_away_from_target:
  "distanceTo (position (transformAt (Vector3 4 (2 + 1 / 1000) 0))) (targetPos (exampleInstance ball))
     = 1 / 1000 \<and>
   distanceTo (position (updateInstance True (pi / 4) (1 / 10) (exampleInstance ball)
                          (transformAt (Vector3 4 (2 + 1 / 1000) 0))))
              (targetPos (exampleInstance ball))
     = 29 / 10000"
  by (simp add: updateInstance_position exampleInstance_def transformAt_def lerpV_def
      distanceTo_along_y Let_def)

section \<open>Two updates with delta zero\<close>

text \<open>
  With \<open>delta = 0\<close> the interpolation factor is 0 and a stored position is interpolated
  to itself. What a ball or a light is given is computed from its position, its instance
  data and the time, so equal positions give equal matrices.
\<close>

lemma forEachInstanceFl_length [simp]:
  "length (forEachInstanceFl fl isFormed time delta ds i ms) = length ms"
  by (induction ds arbitrary: i ms) simp_all











section \<open>Rotation by category\<close>

lemma lookAt_on_axis:
  assumes "vx p = 0" "vz p = 0"
  shows "lookAt p (Vector3 0 (vy p) 0) = Matrix3 (Vector3 1 0 0) (Vector3 0 1 0) (Vector3 0 0 1)"
proof -
  have z0: "subVectors (Vector3 0 (vy p) 0) p = Vector3 0 0 0"
    using assms by (simp add: subVectors_def)
  have l0: "lengthSq (Vector3 0 0 0) = 0" by (simp add: lengthSq_def)
  have n: "normalizeV (Vector3 0 0 1) = Vector3 0 0 1"
    by (simp add: normalizeV_def lengthSq_def)
  have x: "crossVectors (Vector3 0 1 0) (Vector3 0 0 1) = Vector3 1 0 0"
    by (simp add: crossVectors_def)
  have lx: "lengthSq (Vector3 1 0 0) \<noteq> 0" by (simp add: lengthSq_def)
  have nx: "normalizeV (Vector3 1 0 0) = Vector3 1 0 0"
    by (simp add: normalizeV_def lengthSq_def)
  have y: "crossVectors (Vector3 0 0 1) (Vector3 1 0 0) = Vector3 0 1 0"
    by (simp add: crossVectors_def)
  show ?thesis
    by (simp add: lookAt_def lookAtMatrix_def z0 l0 n x lx nx y Let_def)
qed

lemma lookAt_off_axis:
  assumes "vx p \<noteq> 0 \<or> vz p \<noteq> 0"
  defines "h \<equiv> sqrt (vx p * vx p + vz p * vz p)"
  shows "lookAt p (Vector3 0 (vy p) 0) =
           Matrix3 (Vector3 (- (vz p / h)) 0 (vx p / h)) (Vector3 0 1 0)
                   (Vector3 (- (vx p / h)) 0 (- (vz p / h)))"
proof -
  have s: "0 < vx p * vx p + vz p * vz p"
    using assms(1) by (metis add_pos_nonneg add_nonneg_pos not_real_square_gt_zero zero_le_square)
  then have h: "0 < h" by (simp add: h_def)
  have hh: "h * h = vx p * vx p + vz p * vz p"
    using s by (simp add: h_def)
  let ?z = "Vector3 (- (vx p / h)) 0 (- (vz p / h))"
  let ?x = "Vector3 (- (vz p / h)) 0 (vx p / h)"
  have z0: "subVectors (Vector3 0 (vy p) 0) p = Vector3 (- vx p) 0 (- vz p)"
    by (simp add: subVectors_def)
  have l0: "lengthSq (Vector3 (- vx p) 0 (- vz p)) = vx p * vx p + vz p * vz p"
    by (simp add: lengthSq_def)
  have n: "normalizeV (Vector3 (- vx p) 0 (- vz p)) = ?z"
    using h by (simp add: normalizeV_def l0 Let_def h_def)
  have x: "crossVectors (Vector3 0 1 0) ?z = ?x"
    by (simp add: crossVectors_def)
  have "lengthSq ?x = (vx p * vx p + vz p * vz p) / (h * h)"
    by (simp add: lengthSq_def add_divide_distrib)
  also have "\<dots> = 1"
    using h by (simp only: hh[symmetric]) simp
  finally have lx: "lengthSq ?x = 1" .
  have nx: "normalizeV ?x = ?x"
    by (simp add: normalizeV_def lx)
  have "(- (vz p / h)) * (- (vz p / h)) - (- (vx p / h)) * (vx p / h)
          = (vx p * vx p + vz p * vz p) / (h * h)"
    by (simp add: add_divide_distrib)
  also have "\<dots> = 1"
    using h by (simp only: hh[symmetric]) simp
  finally have y: "crossVectors ?z ?x = Vector3 0 1 0"
    by (simp add: crossVectors_def)
  have l0': "lengthSq (Vector3 (- vx p) 0 (- vz p)) \<noteq> 0"
    using s by (auto simp: l0)
  show ?thesis
    by (simp add: lookAt_def lookAtMatrix_def z0 l0' n x lx nx y Let_def)
qed

lemma radialOutward_off_axis:
  assumes "vx p \<noteq> 0 \<or> vz p \<noteq> 0"
  shows "radialOutward p =
           Vector3 (vx p / sqrt (vx p * vx p + vz p * vz p)) 0
                   (vz p / sqrt (vx p * vx p + vz p * vz p))"
proof -
  have s: "0 < vx p * vx p + vz p * vz p"
    using assms by (metis add_pos_nonneg add_nonneg_pos not_real_square_gt_zero zero_le_square)
  then show ?thesis
    by (simp add: radialOutward_def normalizeV_def lengthSq_def Let_def)
qed


lemma lookAt_zAxis:
  "zAxis (lookAt p (Vector3 0 (vy p) 0)) =
     (if vx p = 0 \<and> vz p = 0 then Vector3 0 0 1 else multiplyScalar (radialOutward p) (- 1))"
proof (cases "vx p = 0 \<and> vz p = 0")
  case True
  then show ?thesis by (simp add: lookAt_on_axis)
next
  case False
  then have o: "vx p \<noteq> 0 \<or> vz p \<noteq> 0" by blast
  show ?thesis
    using False by (simp add: lookAt_off_axis[OF o] radialOutward_off_axis[OF o] multiplyScalar_def)
qed

lemma lookAt_yAxis: "yAxis (lookAt p (Vector3 0 (vy p) 0)) = Vector3 0 1 0"
proof (cases "vx p = 0 \<and> vz p = 0")
  case True
  then show ?thesis by (simp add: lookAt_on_axis)
next
  case False
  then have o: "vx p \<noteq> 0 \<or> vz p \<noteq> 0" by blast
  show ?thesis by (simp add: lookAt_off_axis[OF o])
qed

text \<open>
  Claim C2, amended: on every update of an instance the rotation depends on the
  category. For a gift, the Euler angles read back from its matrix are incremented by
  \<open>delta * 0.5\<close> on x and by \<open>delta * 0.2\<close> on y and written back. Every other instance
  (ball or light) is turned by \<open>lookAt\<close> to face the point of the axis \<open>x = z = 0\<close> at its
  own height: its local +Z axis is the horizontal unit vector from its position towards
  the axis, the opposite of the radially outward direction (so its local -Z axis points
  outward), its local Y axis is vertical, and an instance on the axis itself gets the
  identity orientation.
\<close>

theorem rotation_by_category:
  "(type d = gift \<longrightarrow>
      rotation (updateInstance isFormed time delta d m) =
        makeRotationFromEuler
          (Euler (ex (setFromRotationMatrix (rotation m)) + delta * 0.5)
                 (ey (setFromRotationMatrix (rotation m)) + delta * 0.2)
                 (ez (setFromRotationMatrix (rotation m))))) \<and>
   (type d \<noteq> gift \<longrightarrow>
      zAxis (rotation (updateInstance isFormed time delta d m)) =
        (if vx (position (updateInstance isFormed time delta d m)) = 0 \<and>
            vz (position (updateInstance isFormed time delta d m)) = 0
         then Vector3 0 0 1
         else multiplyScalar (radialOutward (position (updateInstance isFormed time delta d m))) (- 1)) \<and>
      yAxis (rotation (updateInstance isFormed time delta d m)) = Vector3 0 1 0)"
  by (simp add: updateInstance_rotation lookAt_zAxis lookAt_yAxis)

theorem rotation_by_category_witness:
  "(type (exampleInstance gift) = gift \<and>
    rotation (updateInstance False 0 1 (exampleInstance gift) (transformAt (Vector3 4 2 0))) =
      makeRotationFromEuler (Euler (1 / 2) (1 / 5) 0)) \<and>
   (type (exampleInstance ball) \<noteq> gift \<and>
    zAxis (rotation (updateInstance False 0 1 (exampleInstance ball) (transformAt (Vector3 0 5 10))))
      = Vector3 0 0 1)"
proof -
  have e: "setFromRotationMatrix (rotation (transformAt (Vector3 4 2 0))) = Euler 0 0 0"
    by (simp add: setFromRotationMatrix_def transformAt_def clamp_def atan2_def)
  have p: "position (updateInstance False 0 1 (exampleInstance ball) (transformAt (Vector3 0 5 10)))
             = Vector3 0 5 (- 20)"
    by (simp add: updateInstance_position exampleInstance_def transformAt_def lerpV_def)
  have r: "radialOutward (Vector3 0 5 (- 20)) = Vector3 0 0 (- 1)"
    by (simp add: radialOutward_def normalizeV_def lengthSq_def)
  have t: "type (exampleInstance gift) = gift" "type (exampleInstance ball) \<noteq> gift"
    by (simp_all add: exampleInstance_def)
  show ?thesis
    using rotation_by_category[of "exampleInstance gift" False 0 1 "transformAt (Vector3 4 2 0)"]
      rotation_by_category[of "exampleInstance ball" False 0 1 "transformAt (Vector3 0 5 10)"]
    by (simp add: e p r t multiplyScalar_def)
qed

text \<open>
  Claim C2, as stated: a ball or light faces away from the axis, its facing direction
  being the radially outward one. It fails on the code: \<open>dummy.lookAt(0, y, 0)\<close> turns the
  local +Z axis, the direction with which a three.js object other than a camera or a
  light looks at a point, towards the axis. A ball at \<open>(4, 2, 0)\<close> faces \<open>(-1, 0, 0)\<close>,
  while the outward direction there is \<open>(1, 0, 0)\<close>.
\<close>

theorem lookAt_faces_the_axis:
  "zAxis (rotation (updateInstance False 0 0 (exampleInstance ball) (transformAt (Vector3 4 2 0))))
     \<noteq> radialOutward
         (position (updateInstance False 0 0 (exampleInstance ball) (transformAt (Vector3 4 2 0))))"
proof -
  have p: "position (updateInstance False 0 0 (exampleInstance ball) (transformAt (Vector3 4 2 0)))
             = Vector3 4 2 0"
    by (simp add: updateInstance_position exampleInstance_def transformAt_def lerpV_def)
  have r: "radialOutward (Vector3 4 2 0) = Vector3 1 0 0"
    by (simp add: radialOutward_def normalizeV_def lengthSq_def)
  have t: "type (exampleInstance ball) \<noteq> gift" by (simp add: exampleInstance_def)
  have "zAxis (rotation (updateInstance False 0 0 (exampleInstance ball) (transformAt (Vector3 4 2 0))))
          = Vector3 (- 1) 0 0"
    using t lookAt_zAxis[of "Vector3 4 2 0"]
    by (simp add: updateInstance_rotation p r multiplyScalar_def)
  then show ?thesis by (simp add: p r)
qed

section \<open>The generators\<close>

lemma foliageBody_length [simp]:
  "length (chaosPositions (foliageBody rng count i a)) = length (chaosPositions a)"
  "length (targetPositions (foliageBody rng count i a)) = length (targetPositions a)"
  "length (randoms (foliageBody rng count i a)) = length (randoms a)"
  by (simp_all add: foliageBody_def Let_def)

lemma foliageLoop_step:
  "i < count \<Longrightarrow>
   foliageLoop rng count i a = foliageLoop rng count (i + 1) (foliageBody rng count i a)"
  by (subst foliageLoop.simps) simp

lemma foliageLoop_done: "\<not> i < count \<Longrightarrow> foliageLoop rng count i a = a"
  by (subst foliageLoop.simps) simp

lemma foliageLoop_lengths:
  "length (chaosPositions (foliageLoop rng count i a)) = length (chaosPositions a) \<and>
   length (targetPositions (foliageLoop rng count i a)) = length (targetPositions a) \<and>
   length (randoms (foliageLoop rng count i a)) = length (randoms a)"
proof (induction rng count i a rule: foliageLoop.induct)
  case (1 rng count i a)
  show ?case
  proof (cases "i < count")
    case True
    then show ?thesis using "1.IH" by (simp add: foliageLoop_step)
  next
    case False
    then show ?thesis by (simp add: foliageLoop_done)
  qed
qed

lemma foliageLoop_length [simp]:
  "length (chaosPositions (foliageLoop rng count i a)) = length (chaosPositions a)"
  "length (targetPositions (foliageLoop rng count i a)) = length (targetPositions a)"
  "length (randoms (foliageLoop rng count i a)) = length (randoms a)"
  using foliageLoop_lengths[of rng count i a] by simp_all

lemma pointAt_update3:
  assumes "i * 3 + 2 < length xs"
  shows "pointAt (xs[i * 3 := a, i * 3 + 1 := b, i * 3 + 2 := c]) j =
           (if j = i then Vector3 a b c else pointAt xs j)"
proof (cases "j = i")
  case True
  then show ?thesis using assms by (simp add: pointAt_def)
next
  case False
  then have "j * 3 \<noteq> i * 3" "j * 3 \<noteq> i * 3 + 1" "j * 3 \<noteq> i * 3 + 2"
    "j * 3 + 1 \<noteq> i * 3" "j * 3 + 1 \<noteq> i * 3 + 1" "j * 3 + 1 \<noteq> i * 3 + 2"
    "j * 3 + 2 \<noteq> i * 3" "j * 3 + 2 \<noteq> i * 3 + 1" "j * 3 + 2 \<noteq> i * 3 + 2"
    by presburger+
  then show ?thesis using False by (simp add: pointAt_def)
qed

lemma foliageBody_target:
  assumes "i * 3 + 2 < length (targetPositions a)"
  shows "pointAt (targetPositions (foliageBody rng count i a)) j =
           (if j = i
            then Vector3 (cos (2 * pi * goldenRatio * real i) * (5 * (1 - real i / real count)))
                         (real i / real count * 12)
                         (sin (2 * pi * goldenRatio * real i) * (5 * (1 - real i / real count)))
            else pointAt (targetPositions a) j)"
  using pointAt_update3[OF assms] by (simp add: foliageBody_def Let_def)

lemma foliageBody_chaos:
  assumes "i * 3 + 2 < length (chaosPositions a)"
  shows "pointAt (chaosPositions (foliageBody rng count i a)) j =
           (if j = i
            then Vector3 (25 * root 3 (rng (4 * i)) * sin (arccos (2 * rng (4 * i + 2) - 1))
                            * cos (rng (4 * i + 1) * 2 * pi))
                         (25 * root 3 (rng (4 * i)) * sin (arccos (2 * rng (4 * i + 2) - 1))
                            * sin (rng (4 * i + 1) * 2 * pi) + 5)
                         (25 * root 3 (rng (4 * i)) * cos (arccos (2 * rng (4 * i + 2) - 1)))
            else pointAt (chaosPositions a) j)"
  using pointAt_update3[OF assms] by (simp add: foliageBody_def Let_def)

lemma foliageBody_randoms:
  assumes "i < length (randoms a)"
  shows "randoms (foliageBody rng count i a) ! j =
           (if j = i then rng (4 * i + 3) else randoms a ! j)"
  using assms by (simp add: foliageBody_def Let_def nth_list_update)

lemma foliageLoop_target:
  assumes "length (targetPositions a) = count * 3" "j < count"
  shows "pointAt (targetPositions (foliageLoop rng count i a)) j =
           (if i \<le> j
            then Vector3 (cos (2 * pi * goldenRatio * real j) * (5 * (1 - real j / real count)))
                         (real j / real count * 12)
                         (sin (2 * pi * goldenRatio * real j) * (5 * (1 - real j / real count)))
            else pointAt (targetPositions a) j)"
  using assms
proof (induction rng count i a rule: foliageLoop.induct)
  case (1 rng count i a)
  show ?case
  proof (cases "i < count")
    case True
    have b: "i * 3 + 2 < length (targetPositions a)" using True "1.prems" by simp
    have l: "length (targetPositions (foliageBody rng count i a)) = count * 3"
      using "1.prems" by simp
    have "i \<le> j \<longleftrightarrow> i + 1 \<le> j \<or> j = i" by auto
    then show ?thesis
      unfolding foliageLoop_step[OF True] "1.IH"[OF True l "1.prems"(2)]
      by (auto simp: foliageBody_target[OF b])
  next
    case False
    then show ?thesis using "1.prems" by (simp add: foliageLoop_done)
  qed
qed

text \<open>
  Claim C7: for every index \<open>i < count\<close>, the \<open>i\<close>-th target position written by the
  foliage generator is \<open>(radius * cos angle, y, radius * sin angle)\<close> with
  \<open>angle = 2 * pi * goldenRatio * i\<close>, \<open>y = (i / count) * 12\<close> and
  \<open>radius = 5 * (1 - i / count)\<close>, the golden ratio being \<open>(1 + sqrt 5) / 2\<close>.
\<close>

theorem foliage_target_on_spiral:
  assumes "i < count"
  shows "pointAt (targetPositions (foliageData rng count)) i =
           Vector3 (5 * (1 - real i / real count) * cos (2 * pi * goldenRatio * real i))
                   (real i / real count * 12)
                   (5 * (1 - real i / real count) * sin (2 * pi * goldenRatio * real i)) \<and>
         goldenRatio = (1 + sqrt 5) / 2"
  using foliageLoop_target[of _ count i rng 0] assms
  by (simp add: foliageData_def goldenRatio_def mult.commute)

theorem foliage_target_on_spiral_witness:
  "(1 :: nat) < 2 \<and>
   pointAt (targetPositions (foliageData (\<lambda>k. 1 / 2) 2)) 1 =
     Vector3 (5 * (1 - 1 / 2) * cos (2 * pi * goldenRatio * 1))
             (1 / 2 * 12)
             (5 * (1 - 1 / 2) * sin (2 * pi * goldenRatio * 1))"
  using foliage_target_on_spiral[of 1 2 "\<lambda>k. 1 / 2"] by simp


lemma ornamentsLoop_step:
  "i < count \<Longrightarrow>
   ornamentsLoop rng count i k acc =
     ornamentsLoop rng count (i + 1) (snd (makeInstance rng k))
       (pushInstance (fst (makeInstance rng k)) acc)"
  by (subst ornamentsLoop.simps) (simp add: split_def)

lemma ornamentsLoop_done: "\<not> i < count \<Longrightarrow> ornamentsLoop rng count i k acc = acc"
  by (subst ornamentsLoop.simps) simp

lemma pushInstance_filters:
  "pushInstance d acc =
     \<lparr>ballsData = ballsData acc @ filter (\<lambda>d. type d = ball) [d],
      giftsData = giftsData acc @ filter (\<lambda>d. type d = gift) [d],
      lightsData = lightsData acc @ filter (\<lambda>d. type d = light) [d]\<rparr>"
  by (cases "type d") (simp_all add: pushInstance_def)

lemma ornamentsLoop_filters:
  assumes "i \<le> count"
  shows "ornamentsLoop rng count i (firstDraw rng i) acc =
     \<lparr>ballsData = ballsData acc @
        filter (\<lambda>d. type d = ball) (map (\<lambda>j. fst (makeInstance rng (firstDraw rng j))) [i..<count]),
      giftsData = giftsData acc @
        filter (\<lambda>d. type d = gift) (map (\<lambda>j. fst (makeInstance rng (firstDraw rng j))) [i..<count]),
      lightsData = lightsData acc @
        filter (\<lambda>d. type d = light) (map (\<lambda>j. fst (makeInstance rng (firstDraw rng j))) [i..<count])\<rparr>"
  using assms
proof (induction "count - i" arbitrary: i acc)
  case 0
  then show ?case by (simp add: ornamentsLoop_done)
next
  case (Suc n)
  then have lt: "i < count" by simp
  have n: "n = count - (i + 1)" using Suc.hyps(2) by simp
  have le: "i + 1 \<le> count" using lt by simp
  have fd: "snd (makeInstance rng (firstDraw rng i)) = firstDraw rng (i + 1)" by simp
  have u: "[i..<count] = i # [i + 1..<count]" using lt by (simp add: upt_rec)
  show ?case
    unfolding ornamentsLoop_step[OF lt] fd Suc.hyps(1)[OF n le] u
    by (simp add: pushInstance_filters)
qed

lemma ornamentsData_filters:
  "ornamentsData rng N =
     \<lparr>ballsData = filter (\<lambda>d. type d = ball) (generated rng N),
      giftsData = filter (\<lambda>d. type d = gift) (generated rng N),
      lightsData = filter (\<lambda>d. type d = light) (generated rng N)\<rparr>"
  using ornamentsLoop_filters[of 0 N rng "\<lparr>ballsData = [], giftsData = [], lightsData = []\<rparr>"]
  by (simp add: ornamentsData_def generated_def)

lemma makeInstance_type: "type (fst (makeInstance rng k)) = ornamentType (rng k)"
  by (simp add: makeInstance_def Let_def split_def)

lemma ornamentType_cases:
  "(ornamentType r = ball) = (r \<le> double_0_8) \<and>
   (ornamentType r = gift) = (double_0_8 < r \<and> r \<le> double_0_9) \<and>
   (ornamentType r = light) = (double_0_9 < r)"
  by (simp add: ornamentType_def Let_def double_0_8_def double_0_9_def)

lemma length_filter_generated:
  "length (filter (\<lambda>d. type d = c) (generated rng N))
     = length (filter (\<lambda>i. ornamentType (rng (firstDraw rng i)) = c) [0..<N])"
  by (simp add: generated_def filter_map comp_def makeInstance_type)

text \<open>
  Claim C6: the category of every ornament is decided by one draw, the first of its
  iteration, against the thresholds \<open>0.8\<close> and \<open>0.9\<close> of the source (the doubles these
  literals denote): for every count \<open>N\<close> the generator returns as many balls as there are
  iterations whose first draw is at most 0.8, as many gifts as there are with a first
  draw above 0.8 and at most 0.9, and as many lights as there are with a first draw above
  0.9; each list holds its own category only. The three ranges split \<open>[0, 1)\<close> into
  lengths 0.8, 0.1 and 0.1, up to \<open>10^-16\<close>, so the split of the instances is the split
  of \<open>N\<close> uniform draws over these ranges.
\<close>

theorem category_split_by_first_draw:
  "length (ballsData (ornamentsData rng N))
     = length (filter (\<lambda>i. rng (firstDraw rng i) \<le> double_0_8) [0..<N]) \<and>
   length (giftsData (ornamentsData rng N))
     = length (filter (\<lambda>i. double_0_8 < rng (firstDraw rng i) \<and>
                              rng (firstDraw rng i) \<le> double_0_9) [0..<N]) \<and>
   length (lightsData (ornamentsData rng N))
     = length (filter (\<lambda>i. double_0_9 < rng (firstDraw rng i)) [0..<N]) \<and>
   list_all (\<lambda>d. type d = ball) (ballsData (ornamentsData rng N)) \<and>
   list_all (\<lambda>d. type d = gift) (giftsData (ornamentsData rng N)) \<and>
   list_all (\<lambda>d. type d = light) (lightsData (ornamentsData rng N)) \<and>
   \<bar>double_0_8 - 0 - 8 / 10\<bar> \<le> 1 / 10 ^ 16 \<and>
   \<bar>double_0_9 - double_0_8 - 1 / 10\<bar> \<le> 1 / 10 ^ 16 \<and>
   \<bar>1 - double_0_9 - 1 / 10\<bar> \<le> 1 / 10 ^ 16"
proof -
  have t: "list_all (\<lambda>d. type d = c) (filter (\<lambda>d. type d = c) xs)" for c and xs :: "InstanceData list"
    by (simp add: list_all_iff)
  have d: "\<bar>double_0_8 - 0 - 8 / 10\<bar> \<le> 1 / 10 ^ 16 \<and>
           \<bar>double_0_9 - double_0_8 - 1 / 10\<bar> \<le> 1 / 10 ^ 16 \<and>
           \<bar>1 - double_0_9 - 1 / 10\<bar> \<le> 1 / 10 ^ 16"
    by (simp add: double_0_8_def double_0_9_def)
  show ?thesis
    using t d
    by (simp add: ornamentsData_filters length_filter_generated ornamentType_cases)
qed


lemma snd_makeInstance:
  "snd (makeInstance rng k) = k + (if ornamentType (rng k) = light then 10 else 12)"
  by (simp add: makeInstance_def Let_def split_def)

lemma spreadDraws_multiple: "spreadDraws (12 * i) = real i / 10 + 1 / 20"
  by (simp add: spreadDraws_def)

lemma firstDraw_spreadDraws: "i \<le> 9 \<Longrightarrow> firstDraw spreadDraws i = 12 * i"
proof (induction i)
  case 0
  then show ?case by simp
next
  case (Suc i)
  then have f: "firstDraw spreadDraws i = 12 * i" by simp
  have "real i \<le> 8" using Suc.prems by simp
  then have "spreadDraws (12 * i) \<le> double_0_9"
    by (simp add: spreadDraws_multiple double_0_9_def)
  then have "ornamentType (spreadDraws (12 * i)) \<noteq> light"
    by (simp add: ornamentType_cases)
  then show ?case by (simp add: f snd_makeInstance)
qed

theorem category_split_by_first_draw_witness:
  "length (ballsData (ornamentsData spreadDraws 10)) = 8 \<and>
   length (giftsData (ornamentsData spreadDraws 10)) = 1 \<and>
   length (lightsData (ornamentsData spreadDraws 10)) = 1"
proof -
  have u: "[0..<10] = [0, 1, 2, 3, 4, 5, 6, 7, 8, 9 :: nat]"
    by code_simp
  have g: "spreadDraws (firstDraw spreadDraws i) = real i / 10 + 1 / 20" if "i \<le> 9" for i
    using that by (simp only: firstDraw_spreadDraws spreadDraws_multiple)
  have "map (\<lambda>i. spreadDraws (firstDraw spreadDraws i)) [0..<10]
          = map (\<lambda>i. real i / 10 + 1 / 20) [0..<10]"
    by (rule map_cong) (auto simp: g)
  also have "\<dots> = [1/20, 3/20, 5/20, 7/20, 9/20, 11/20, 13/20, 15/20, 17/20, 19/20]"
    unfolding u by simp
  finally have v: "map (\<lambda>i. spreadDraws (firstDraw spreadDraws i)) [0..<10]
             = [1/20, 3/20, 5/20, 7/20, 9/20, 11/20, 13/20, 15/20, 17/20, 19/20]" .
  have c: "length (filter (\<lambda>i. P (spreadDraws (firstDraw spreadDraws i))) [0..<10])
             = length (filter P (map (\<lambda>i. spreadDraws (firstDraw spreadDraws i)) [0..<10]))"
    for P
    by (simp add: filter_map comp_def)
  show ?thesis
    using category_split_by_first_draw[of spreadDraws 10]
    unfolding c[of "\<lambda>r. r \<le> double_0_8"] c[of "\<lambda>r. double_0_8 < r \<and> r \<le> double_0_9"]
      c[of "\<lambda>r. double_0_9 < r"] v
    by (simp add: double_0_8_def double_0_9_def)
qed

text \<open>
  In exact arithmetic the point \<open>(0, 5, 0) + r * direction\<close> is at distance \<open>r\<close> from
  \<open>(0, 5, 0)\<close>.
\<close>

lemma sphere_point_distance:
  "distanceTo (Vector3 (r * sin p * cos t) (r * sin p * sin t + 5) (r * cos p)) (Vector3 0 5 0)
     = \<bar>r\<bar>"
proof -
  have "(r * sin p * cos t)\<^sup>2 + (r * sin p * sin t)\<^sup>2 + (r * cos p)\<^sup>2
          = r\<^sup>2 * ((sin p)\<^sup>2 * ((cos t)\<^sup>2 + (sin t)\<^sup>2) + (cos p)\<^sup>2)"
    by (simp only: power2_eq_square algebra_simps)
  also have "\<dots> = r\<^sup>2 * 1" by (simp only: sin_cos_squared_add sin_cos_squared_add2 mult_1_right)
  finally show ?thesis by (simp add: distanceTo_def)
qed

lemma foliageLoop_chaos:
  assumes "length (chaosPositions a) = count * 3" "j < count"
  shows "pointAt (chaosPositions (foliageLoop rng count i a)) j =
           (if i \<le> j
            then Vector3 (25 * root 3 (rng (4 * j)) * sin (arccos (2 * rng (4 * j + 2) - 1))
                            * cos (rng (4 * j + 1) * 2 * pi))
                         (25 * root 3 (rng (4 * j)) * sin (arccos (2 * rng (4 * j + 2) - 1))
                            * sin (rng (4 * j + 1) * 2 * pi) + 5)
                         (25 * root 3 (rng (4 * j)) * cos (arccos (2 * rng (4 * j + 2) - 1)))
            else pointAt (chaosPositions a) j)"
  using assms
proof (induction rng count i a rule: foliageLoop.induct)
  case (1 rng count i a)
  show ?case
  proof (cases "i < count")
    case True
    have b: "i * 3 + 2 < length (chaosPositions a)" using True "1.prems" by simp
    have l: "length (chaosPositions (foliageBody rng count i a)) = count * 3"
      using "1.prems" by simp
    have "i \<le> j \<longleftrightarrow> i + 1 \<le> j \<or> j = i" by auto
    then show ?thesis
      unfolding foliageLoop_step[OF True] "1.IH"[OF True l "1.prems"(2)]
      by (auto simp: foliageBody_chaos[OF b])
  next
    case False
    then show ?thesis using "1.prems" by (simp add: foliageLoop_done)
  qed
qed

lemma foliageLoop_randoms:
  assumes "length (randoms a) = count" "j < count"
  shows "randoms (foliageLoop rng count i a) ! j =
           (if i \<le> j then rng (4 * j + 3) else randoms a ! j)"
  using assms
proof (induction rng count i a rule: foliageLoop.induct)
  case (1 rng count i a)
  show ?case
  proof (cases "i < count")
    case True
    have b: "i < length (randoms a)" using True "1.prems" by simp
    have l: "length (randoms (foliageBody rng count i a)) = count"
      using "1.prems" by simp
    have "i \<le> j \<longleftrightarrow> i + 1 \<le> j \<or> j = i" by auto
    then show ?thesis
      unfolding foliageLoop_step[OF True] "1.IH"[OF True l "1.prems"(2)]
      by (auto simp: foliageBody_randoms[OF b])
  next
    case False
    then show ?thesis using "1.prems" by (simp add: foliageLoop_done)
  qed
qed

lemma makeInstance_chaosPos:
  "chaosPos (fst (makeInstance rng k)) =
     Vector3 ((15 + rng (k + 4) * 15) * sin (arccos (2 * rng (k + 6) - 1)) * cos (rng (k + 5) * pi * 2))
             ((15 + rng (k + 4) * 15) * sin (arccos (2 * rng (k + 6) - 1)) * sin (rng (k + 5) * pi * 2) + 5)
             ((15 + rng (k + 4) * 15) * cos (arccos (2 * rng (k + 6) - 1)))"
  by (simp add: makeInstance_def Let_def split_def)

lemma makeInstance_target_y:
  "vy (targetPos (fst (makeInstance rng k))) = rng (k + 1) powr 2.5 * 11 + 0.5"
  by (simp add: makeInstance_def Let_def split_def)


lemma powr_five_halves: "0 < x \<Longrightarrow> x powr 2.5 = x\<^sup>2 * sqrt x"
proof -
  assume x: "0 < x"
  have "x powr 2.5 = x powr (2 + 1 / 2)" by simp
  also have "\<dots> = x powr 2 * x powr (1 / 2)" by (rule powr_add)
  also have "\<dots> = x\<^sup>2 * sqrt x" using x by (simp add: powr_numeral powr_half_sqrt)
  finally show ?thesis .
qed

text \<open>
  Claim C8, as stated: every target height lies within the configured height bounds,
  which for an ornament is the height 11. It fails on the code: the target height is
  \<open>yNorm * 11 + 0.5\<close>, and with every draw equal to 0.99 the only instance, a light, has
  its target at height \<open>0.99 powr 2.5 * 11 + 0.5\<close>, about 11.227.
\<close>

theorem ornament_target_above_height:
  "lightsData (ornamentsData (\<lambda>k. 99 / 100) 1) = [fst (makeInstance (\<lambda>k. 99 / 100) 0)] \<and>
   11 < vy (targetPos (fst (makeInstance (\<lambda>k. 99 / 100) 0)))"
proof -
  have l: "ornamentType (99 / 100) = light"
    by (simp add: ornamentType_cases double_0_9_def)
  have g: "generated (\<lambda>k. 99 / 100) 1 = [fst (makeInstance (\<lambda>k. 99 / 100) 0)]"
    by (simp add: generated_def)
  have a: "lightsData (ornamentsData (\<lambda>k. 99 / 100) 1) = [fst (makeInstance (\<lambda>k. 99 / 100) 0)]"
    unfolding ornamentsData_filters g by (simp add: makeInstance_type l)
  have "(99 / 100 :: real)\<^sup>2 \<le> 99 / 100" by (simp add: power2_eq_square)
  then have "sqrt ((99 / 100)\<^sup>2) \<le> sqrt (99 / 100 :: real)" by (rule real_sqrt_le_mono)
  then have s: "99 / 100 \<le> sqrt (99 / 100 :: real)" by simp
  have "(99 / 100 :: real)\<^sup>2 * (99 / 100) \<le> (99 / 100)\<^sup>2 * sqrt (99 / 100)"
    using s by (intro mult_left_mono) auto
  then have q: "970299 / 1000000 \<le> (99 / 100 :: real)\<^sup>2 * sqrt (99 / 100)"
    by (simp add: power2_eq_square)
  have p: "(99 / 100 :: real) powr 2.5 = (99 / 100)\<^sup>2 * sqrt (99 / 100)"
    by (rule powr_five_halves) simp
  have "11 < (99 / 100 :: real) powr 2.5 * 11 + 0.5"
    unfolding p using q by simp
  then have b: "11 < vy (targetPos (fst (makeInstance (\<lambda>k. 99 / 100) 0)))"
    by (simp add: makeInstance_target_y)
  from a b show ?thesis by blast
qed


lemma length_generated [simp]: "length (generated rng N) = N"
  by (simp add: generated_def)

lemma nth_generated:
  "i < N \<Longrightarrow> generated rng N ! i = fst (makeInstance rng (firstDraw rng i))"
  by (simp add: generated_def)

text \<open>
  Claim C8, amended: for every count \<open>N\<close> and draws in \<open>[0, 1)\<close>, the foliage generator
  fills exactly \<open>N\<close> entries (\<open>3 * N\<close> chaos coordinates, \<open>3 * N\<close> target coordinates, \<open>N\<close>
  random scalars) and the ornament generator makes exactly \<open>N\<close> instances, the three
  lists being the balls, the gifts and the lights among them in order. The \<open>i\<close>-th
  foliage chaos position is \<open>(0, 5, 0) + r * direction\<close> with \<open>r = 25 * cbrt(draw)\<close> in
  \<open>[0, 25]\<close>, the \<open>i\<close>-th foliage target height is \<open>(i / N) * 12\<close> in \<open>[0, 12]\<close>, the \<open>i\<close>-th
  random scalar is a draw. The chaos position of an ornament is \<open>(0, 5, 0) + cR * direction\<close>
  with \<open>cR = 15 + draw * 15\<close> in \<open>[15, 30]\<close>, and its target height is \<open>yNorm * 11 + 0.5\<close>
  in \<open>[0.5, 11.5]\<close>, above the height 11 when \<open>yNorm > 10.5 / 11\<close>. The positions are
  those of the formulas the code evaluates; the stored numbers carry the rounding of the
  evaluation.
\<close>

theorem generated_counts_and_formulas:
  assumes rng: "\<forall>k. 0 \<le> rng k \<and> rng k < 1"
  shows "length (chaosPositions (foliageData rng N)) = N * 3 \<and>
         length (targetPositions (foliageData rng N)) = N * 3 \<and>
         length (randoms (foliageData rng N)) = N \<and>
         (\<forall>i<N.
            (let r = 25 * root 3 (rng (4 * i));
                 theta = rng (4 * i + 1) * 2 * pi;
                 phi = arccos (2 * rng (4 * i + 2) - 1)
             in pointAt (chaosPositions (foliageData rng N)) i
                  = Vector3 (r * sin phi * cos theta) (r * sin phi * sin theta + 5) (r * cos phi) \<and>
                0 \<le> r \<and> r \<le> 25) \<and>
            vy (pointAt (targetPositions (foliageData rng N)) i) = real i / real N * 12 \<and>
            0 \<le> real i / real N * 12 \<and> real i / real N * 12 \<le> 12 \<and>
            randoms (foliageData rng N) ! i = rng (4 * i + 3)) \<and>
         ornamentsData rng N =
           \<lparr>ballsData = filter (\<lambda>d. type d = ball) (generated rng N),
            giftsData = filter (\<lambda>d. type d = gift) (generated rng N),
            lightsData = filter (\<lambda>d. type d = light) (generated rng N)\<rparr> \<and>
         length (generated rng N) = N \<and>
         length (ballsData (ornamentsData rng N)) + length (giftsData (ornamentsData rng N))
           + length (lightsData (ornamentsData rng N)) = N \<and>
         (\<forall>i<N.
            (let k = firstDraw rng i;
                 cR = 15 + rng (k + 4) * 15;
                 cTheta = rng (k + 5) * pi * 2;
                 cPhi = arccos (2 * rng (k + 6) - 1);
                 y = rng (k + 1) powr 2.5 * 11 + 0.5
             in chaosPos (generated rng N ! i)
                  = Vector3 (cR * sin cPhi * cos cTheta) (cR * sin cPhi * sin cTheta + 5)
                            (cR * cos cPhi) \<and>
                15 \<le> cR \<and> cR \<le> 30 \<and>
                vy (targetPos (generated rng N ! i)) = y \<and> 0.5 \<le> y \<and> y \<le> 11.5))"
proof -
  have f: "length (chaosPositions (foliageData rng N)) = N * 3 \<and>
           length (targetPositions (foliageData rng N)) = N * 3 \<and>
           length (randoms (foliageData rng N)) = N"
    by (simp add: foliageData_def)
  have e: "(let r = 25 * root 3 (rng (4 * i));
                 theta = rng (4 * i + 1) * 2 * pi;
                 phi = arccos (2 * rng (4 * i + 2) - 1)
             in pointAt (chaosPositions (foliageData rng N)) i
                  = Vector3 (r * sin phi * cos theta) (r * sin phi * sin theta + 5) (r * cos phi) \<and>
                0 \<le> r \<and> r \<le> 25) \<and>
            vy (pointAt (targetPositions (foliageData rng N)) i) = real i / real N * 12 \<and>
            0 \<le> real i / real N * 12 \<and> real i / real N * 12 \<le> 12 \<and>
            randoms (foliageData rng N) ! i = rng (4 * i + 3)" if i: "i < N" for i
  proof -
    have u: "0 \<le> rng (4 * i)" "rng (4 * i) < 1" using rng by auto
    have r0: "0 \<le> 25 * root 3 (rng (4 * i))" using u by simp
    have "root 3 (rng (4 * i)) \<le> 1" using u by simp
    then have r1: "25 * root 3 (rng (4 * i)) \<le> 25" by simp
    have c: "pointAt (chaosPositions (foliageData rng N)) i =
        Vector3 (25 * root 3 (rng (4 * i)) * sin (arccos (2 * rng (4 * i + 2) - 1))
                   * cos (rng (4 * i + 1) * 2 * pi))
                (25 * root 3 (rng (4 * i)) * sin (arccos (2 * rng (4 * i + 2) - 1))
                   * sin (rng (4 * i + 1) * 2 * pi) + 5)
                (25 * root 3 (rng (4 * i)) * cos (arccos (2 * rng (4 * i + 2) - 1)))"
      using i by (simp add: foliageData_def foliageLoop_chaos)
    have q: "real i / real N \<le> 1" "0 \<le> real i / real N" using i by simp_all
    have "0 \<le> q \<Longrightarrow> q \<le> 1 \<Longrightarrow> 0 \<le> q * 12 \<and> q * 12 \<le> 12" for q :: real
      by simp
    from this[OF q(2) q(1)]
    have t': "0 \<le> real i / real N * 12 \<and> real i / real N * 12 \<le> 12" .
    have t: "vy (pointAt (targetPositions (foliageData rng N)) i) = real i / real N * 12"
      using i by (simp add: foliageData_def foliageLoop_target)
    have n: "randoms (foliageData rng N) ! i = rng (4 * i + 3)"
      using i by (simp add: foliageData_def foliageLoop_randoms)
    show ?thesis
      unfolding Let_def using c r0 r1 t t' n by blast
  qed
  have o: "(let k = firstDraw rng i;
                 cR = 15 + rng (k + 4) * 15;
                 cTheta = rng (k + 5) * pi * 2;
                 cPhi = arccos (2 * rng (k + 6) - 1);
                 y = rng (k + 1) powr 2.5 * 11 + 0.5
             in chaosPos (generated rng N ! i)
                  = Vector3 (cR * sin cPhi * cos cTheta) (cR * sin cPhi * sin cTheta + 5)
                            (cR * cos cPhi) \<and>
                15 \<le> cR \<and> cR \<le> 30 \<and>
                vy (targetPos (generated rng N ! i)) = y \<and> 0.5 \<le> y \<and> y \<le> 11.5)"
    if i: "i < N" for i
  proof -
    let ?k = "firstDraw rng i"
    have u: "0 \<le> rng (?k + 4)" "rng (?k + 4) \<le> 1" using rng by (auto simp: less_imp_le)
    have c: "15 \<le> 15 + rng (?k + 4) * 15 \<and> 15 + rng (?k + 4) * 15 \<le> 30" using u by simp
    have v: "0 \<le> rng (?k + 1)" "rng (?k + 1) \<le> 1" using rng by (auto simp: less_imp_le)
    have p0: "0 \<le> rng (?k + 1) powr 2.5" by simp
    have p1: "rng (?k + 1) powr 2.5 \<le> 1" using v by (intro powr_le1) auto
    have "0 \<le> q \<Longrightarrow> q \<le> 1 \<Longrightarrow> 0.5 \<le> q * 11 + 0.5 \<and> q * 11 + 0.5 \<le> 11.5" for q :: real
      by simp
    from this[OF p0 p1]
    have y: "0.5 \<le> rng (?k + 1) powr 2.5 * 11 + 0.5 \<and> rng (?k + 1) powr 2.5 * 11 + 0.5 \<le> 11.5" .
    show ?thesis
      unfolding Let_def nth_generated[OF i] makeInstance_chaosPos makeInstance_target_y
      using c y by blast
  qed
  have s: "length (ballsData (ornamentsData rng N)) + length (giftsData (ornamentsData rng N))
           + length (lightsData (ornamentsData rng N)) = N"
  proof -
    have "length (filter (\<lambda>d. type d = ball) xs) + length (filter (\<lambda>d. type d = gift) xs)
            + length (filter (\<lambda>d. type d = light) xs) = length xs" for xs :: "InstanceData list"
    proof (induction xs)
      case Nil
      then show ?case by simp
    next
      case (Cons d xs)
      then show ?case by (cases "type d") simp_all
    qed
    from this[of "generated rng N"] show ?thesis by (simp add: ornamentsData_filters)
  qed
  show ?thesis
    using f e o s ornamentsData_filters[of rng N] length_generated[of rng N] by blast
qed


theorem generated_counts_and_formulas_witness:
  "(\<forall>k :: nat. 0 \<le> (1 / 2 :: real) \<and> (1 / 2 :: real) < 1) \<and>
   length (chaosPositions (foliageData (\<lambda>k. 1 / 2) 1)) = 3 \<and>
   length (randoms (foliageData (\<lambda>k. 1 / 2) 1)) = 1 \<and>
   pointAt (chaosPositions (foliageData (\<lambda>k. 1 / 2) 1)) 0
     = Vector3 (25 * root 3 (1 / 2) * sin (arccos (2 * (1 / 2) - 1)) * cos (1 / 2 * 2 * pi))
               (25 * root 3 (1 / 2) * sin (arccos (2 * (1 / 2) - 1)) * sin (1 / 2 * 2 * pi) + 5)
               (25 * root 3 (1 / 2) * cos (arccos (2 * (1 / 2) - 1))) \<and>
   randoms (foliageData (\<lambda>k. 1 / 2) 1) ! 0 = 1 / 2 \<and>
   length (ballsData (ornamentsData (\<lambda>k. 1 / 2) 1)) + length (giftsData (ornamentsData (\<lambda>k. 1 / 2) 1))
     + length (lightsData (ornamentsData (\<lambda>k. 1 / 2) 1)) = 1 \<and>
   vy (targetPos (generated (\<lambda>k. 1 / 2) 1 ! 0)) = (1 / 2) powr 2.5 * 11 + 0.5 \<and>
   vy (targetPos (generated (\<lambda>k. 1 / 2) 1 ! 0)) \<le> 11.5"
proof -
  have h: "\<forall>k :: nat. 0 \<le> (1 / 2 :: real) \<and> (1 / 2 :: real) < 1" by simp
  note t = generated_counts_and_formulas[of "\<lambda>k. 1 / 2" 1, OF h]
  have a: "length (ballsData (ornamentsData (\<lambda>k. 1 / 2) 1))
             + length (giftsData (ornamentsData (\<lambda>k. 1 / 2) 1))
             + length (lightsData (ornamentsData (\<lambda>k. 1 / 2) 1)) = 1"
    using t by blast
  have b: "length (chaosPositions (foliageData (\<lambda>k. 1 / 2) 1)) = 3 \<and>
           length (randoms (foliageData (\<lambda>k. 1 / 2) 1)) = 1"
    using t by simp
  have c: "pointAt (chaosPositions (foliageData (\<lambda>k. 1 / 2) 1)) 0
     = Vector3 (25 * root 3 (1 / 2) * sin (arccos (2 * (1 / 2) - 1)) * cos (1 / 2 * 2 * pi))
               (25 * root 3 (1 / 2) * sin (arccos (2 * (1 / 2) - 1)) * sin (1 / 2 * 2 * pi) + 5)
               (25 * root 3 (1 / 2) * cos (arccos (2 * (1 / 2) - 1))) \<and>
     randoms (foliageData (\<lambda>k. 1 / 2) 1) ! 0 = 1 / 2"
    using t by (simp add: Let_def)
  have d: "vy (targetPos (generated (\<lambda>k. 1 / 2) 1 ! 0)) = (1 / 2) powr 2.5 * 11 + 0.5 \<and>
           vy (targetPos (generated (\<lambda>k. 1 / 2) 1 ! 0)) \<le> 11.5"
    using t by (simp add: Let_def)
  show ?thesis using h a b c d by blast
qed

section \<open>Finite transforms over a run\<close>




























end
